theory Spec2Isabelle
  imports Complex_Main
begin

unbundle bit_operations_syntax

section \<open>Signal Quality Index: a shallow embedding of SignalQualityIndex.py\<close>

text \<open>
  The program is 120 lines of Python over NumPy and SciPy: \<^verbatim>\<open>SQI\<close> (the staged
  classifier) and \<^verbatim>\<open>fir_filter\<close> (the band-pass filter it calls).  Both are embedded
  below line by line.  The NumPy and SciPy routines they call are not part of the
  repository.  The sums and \<^verbatim>\<open>kaiserord\<close> are embedded from their documented formulas.
  Of \<^verbatim>\<open>detrend\<close>, \<^verbatim>\<open>firwin\<close>, \<^verbatim>\<open>filtfilt\<close> and \<^verbatim>\<open>correlate\<close> the embedding
  fixes when they raise and the shape of what they return, and of \<^verbatim>\<open>np.std\<close> when it
  returns NaN and that it is zero on an all-zero array; the numbers they return
  otherwise are a parameter \<open>K\<close> of the model, so every theorem below holds whatever
  values the library computes, rounded or overflowed as they may be.

  Numbers.  A NumPy \<^verbatim>\<open>float64\<close> is modelled as a finite real or one of the three
  special values; the scalar arithmetic of the program itself (sums, quotients,
  logarithms, the regression line) is exact on finite values, and the special values
  follow IEEE 754: a comparison with NaN is false,
  \<^verbatim>\<open>0/0\<close> is NaN, \<^verbatim>\<open>x/0\<close> is an infinity, \<^verbatim>\<open>log 0\<close> is minus infinity.  NumPy only
  warns in these cases, it does not raise.  Zero has no sign here: every divisor of the
  program is a sum of absolute values, a sum of squares or a standard deviation, so a
  zero divisor is \<^verbatim>\<open>+0\<close>.  The sampling rate \<^verbatim>\<open>Fs\<close> is a Python number, so dividing
  by it when it is zero raises, and an order estimate beyond the largest \<^verbatim>\<open>float64\<close> is
  infinite and cannot be converted to an integer.
\<close>

subsection \<open>float64 values and Python exceptions\<close>

datatype npfloat = Fin real | PInf | NInf | NaN

datatype exn = ValueError | ZeroDivisionError | OverflowError

fun is_fin :: "npfloat \<Rightarrow> bool" where
  "is_fin (Fin r) = True"
| "is_fin PInf = False"
| "is_fin NInf = False"
| "is_fin NaN = False"

fun the_fin :: "npfloat \<Rightarrow> real" where
  "the_fin (Fin r) = r"
| "the_fin PInf = 0"
| "the_fin NInf = 0"
| "the_fin NaN = 0"

text \<open>\<^verbatim>\<open>a < b\<close> on float64: false as soon as one side is NaN.\<close>

fun np_lt :: "npfloat \<Rightarrow> npfloat \<Rightarrow> bool" where
  "np_lt (Fin a) (Fin b) = (a < b)"
| "np_lt (Fin a) PInf = True"
| "np_lt NInf (Fin b) = True"
| "np_lt NInf PInf = True"
| "np_lt a b = False"

definition np_gt :: "npfloat \<Rightarrow> npfloat \<Rightarrow> bool" where
  "np_gt a b = np_lt b a"

text \<open>\<^verbatim>\<open>a + b\<close>, \<^verbatim>\<open>a - b\<close>, \<^verbatim>\<open>a * b\<close>, \<^verbatim>\<open>a / b\<close> and \<^verbatim>\<open>np.log\<close> on float64.\<close>

fun np_neg :: "npfloat \<Rightarrow> npfloat" where
  "np_neg (Fin a) = Fin (- a)"
| "np_neg PInf = NInf"
| "np_neg NInf = PInf"
| "np_neg NaN = NaN"

fun np_add :: "npfloat \<Rightarrow> npfloat \<Rightarrow> npfloat" where
  "np_add (Fin a) (Fin b) = Fin (a + b)"
| "np_add NaN b = NaN"
| "np_add a NaN = NaN"
| "np_add PInf NInf = NaN"
| "np_add NInf PInf = NaN"
| "np_add PInf b = PInf"
| "np_add NInf b = NInf"
| "np_add a PInf = PInf"
| "np_add a NInf = NInf"

definition np_sub :: "npfloat \<Rightarrow> npfloat \<Rightarrow> npfloat" where
  "np_sub a b = np_add a (np_neg b)"

definition inf_of_sign :: "real \<Rightarrow> npfloat" where
  "inf_of_sign s = (if s = 0 then NaN else if 0 < s then PInf else NInf)"

fun np_mul :: "npfloat \<Rightarrow> npfloat \<Rightarrow> npfloat" where
  "np_mul (Fin a) (Fin b) = Fin (a * b)"
| "np_mul NaN b = NaN"
| "np_mul a NaN = NaN"
| "np_mul PInf (Fin b) = inf_of_sign b"
| "np_mul NInf (Fin b) = inf_of_sign (- b)"
| "np_mul (Fin a) PInf = inf_of_sign a"
| "np_mul (Fin a) NInf = inf_of_sign (- a)"
| "np_mul PInf PInf = PInf"
| "np_mul NInf NInf = PInf"
| "np_mul PInf NInf = NInf"
| "np_mul NInf PInf = NInf"

fun np_div :: "npfloat \<Rightarrow> npfloat \<Rightarrow> npfloat" where
  "np_div (Fin a) (Fin b) = (if b = 0 then inf_of_sign a else Fin (a / b))"
| "np_div NaN b = NaN"
| "np_div a NaN = NaN"
| "np_div (Fin a) PInf = Fin 0"
| "np_div (Fin a) NInf = Fin 0"
| "np_div PInf (Fin b) = (if 0 \<le> b then PInf else NInf)"
| "np_div NInf (Fin b) = (if 0 \<le> b then NInf else PInf)"
| "np_div PInf PInf = NaN"
| "np_div PInf NInf = NaN"
| "np_div NInf PInf = NaN"
| "np_div NInf NInf = NaN"

fun np_log :: "npfloat \<Rightarrow> npfloat" where
  "np_log (Fin a) = (if 0 < a then Fin (ln a) else if a = 0 then NInf else NaN)"
| "np_log PInf = PInf"
| "np_log NInf = NaN"
| "np_log NaN = NaN"

text \<open>
  Running one call after another: the first exception ends the computation, as a raised
  Python exception does.
\<close>

definition and_then :: "exn + 'a \<Rightarrow> ('a \<Rightarrow> exn + 'b) \<Rightarrow> exn + 'b" where
  "and_then m f = (case m of Inl e \<Rightarrow> Inl e | Inr v \<Rightarrow> f v)"

subsection \<open>Sums and array subtraction\<close>

fun np_abs :: "npfloat \<Rightarrow> npfloat" where
  "np_abs (Fin a) = Fin \<bar>a\<bar>"
| "np_abs PInf = PInf"
| "np_abs NInf = PInf"
| "np_abs NaN = NaN"

definition np_sum :: "npfloat list \<Rightarrow> npfloat" where
  "np_sum xs = foldr np_add xs (Fin 0)"

definition mean :: "real list \<Rightarrow> real" where
  "mean xs = sum_list xs / real (length xs)"

text \<open>
  \<^verbatim>\<open>a - b\<close> on two one-dimensional arrays: elementwise when the lengths agree, a single
  element is broadcast, any other pair of lengths raises.
\<close>

definition np_sub_arrays :: "npfloat list \<Rightarrow> npfloat list \<Rightarrow> exn + npfloat list" where
  "np_sub_arrays xs ys =
     (if length xs = length ys then Inr (map2 np_sub xs ys)
      else if length xs = 1 then Inr (map (np_sub (hd xs)) ys)
      else if length ys = 1 then Inr (map (\<lambda>x. np_sub x (hd ys)) xs)
      else Inl ValueError)"

subsection \<open>The library routines the program calls\<close>

text \<open>
  The values the numerical routines return, entry by entry: the residual of sample \<open>i\<close>
  after the least-squares line is removed, tap \<open>n\<close> of the designed filter, sample \<open>i\<close>
  of the zero-phase filtered signal, entry \<open>k\<close> of the full cross-correlation, and the
  standard deviation of a finite array.
\<close>

record library_values =
  detrend_values :: "npfloat list \<Rightarrow> nat \<Rightarrow> npfloat"
  firwin_taps :: "nat \<Rightarrow> real \<times> real \<Rightarrow> real \<Rightarrow> real \<Rightarrow> nat \<Rightarrow> npfloat"
  filtfilt_values :: "npfloat list \<Rightarrow> npfloat list \<Rightarrow> nat \<Rightarrow> npfloat"
  correlate_values :: "npfloat list \<Rightarrow> npfloat list \<Rightarrow> nat \<Rightarrow> npfloat"
  std_value :: "npfloat list \<Rightarrow> npfloat"

text \<open>
  \<^verbatim>\<open>np.std\<close> (population standard deviation, \<^verbatim>\<open>ddof = 0\<close>):
  \<^verbatim>\<open>sqrt(mean(abs(x - x.mean())**2))\<close>.  On an empty array the mean is \<^verbatim>\<open>0/0\<close>; with an
  infinite or NaN sample the deviation of that sample is \<^verbatim>\<open>inf - inf\<close> or NaN; in both
  cases the result is NaN.  On an all-zero array every intermediate value is zero.  On any
  other array the result is what float64 arithmetic makes of the formula: the mean of a
  constant array need not be that constant again, so the result can be a tiny non-zero
  number where the exact standard deviation is zero.
\<close>

definition np_std :: "library_values \<Rightarrow> npfloat list \<Rightarrow> npfloat" where
  "np_std K xs =
     (if xs = [] \<or> \<not> list_all is_fin xs then NaN
      else if list_all (\<lambda>x. x = Fin 0) xs then Fin 0
      else std_value K xs)"

text \<open>
  \<^verbatim>\<open>scipy.signal.detrend\<close> (type \<^verbatim>\<open>linear\<close>).  The fit goes through
  \<^verbatim>\<open>scipy.linalg.lstsq\<close>, which refuses an array holding an infinity or a NaN; an empty
  array cannot be reshaped.  The result has the length of the input.
\<close>

definition detrend :: "library_values \<Rightarrow> npfloat list \<Rightarrow> exn + npfloat list" where
  "detrend K data =
     (if data = [] \<or> \<not> list_all is_fin data then Inl ValueError
      else Inr (map (detrend_values K data) [0..<length data]))"

text \<open>
  \<^verbatim>\<open>scipy.signal.kaiserord(ripple, width)\<close>: Kaiser's estimate of the number of taps and of
  the window parameter,
  \<^verbatim>\<open>numtaps = (A - 7.95) / 2.285 / (pi * width) + 1\<close>, returned as \<^verbatim>\<open>int(ceil(numtaps))\<close>,
  with \<^verbatim>\<open>A = abs(ripple)\<close>; it raises when \<^verbatim>\<open>A < 8\<close>.  An estimate beyond the largest
  finite \<^verbatim>\<open>float64\<close>, \<open>(2 ^ 53 - 1) * 2 ^ 971\<close>, is an infinity, and \<^verbatim>\<open>int\<close> of an infinity
  raises \<^verbatim>\<open>OverflowError\<close>.
\<close>

definition float_max :: real where
  "float_max = (2 ^ 53 - 1) * 2 ^ 971"

definition kaiser_beta :: "real \<Rightarrow> real" where
  "kaiser_beta a =
     (if 50 < a then 0.1102 * (a - 8.7)
      else if 21 < a then 0.5842 * (a - 21) powr 0.4 + 0.07886 * (a - 21)
      else 0)"

definition kaiserord :: "real \<Rightarrow> real \<Rightarrow> exn + (int \<times> real)" where
  "kaiserord ripple width =
     (let A = \<bar>ripple\<bar> in
      if A < 8 then Inl ValueError
      else if pi * width = 0 then Inl ZeroDivisionError
      else let numtaps = (A - 7.95) / 2.285 / (pi * width) + 1
           in if float_max < \<bar>numtaps\<bar> then Inl OverflowError
              else Inr (\<lceil>numtaps\<rceil>, kaiser_beta A))"

text \<open>
  \<^verbatim>\<open>scipy.signal.firwin(numtaps, cutoff=[lo, hi], window=('kaiser', beta),
  pass_zero='bandpass', fs=Fs)\<close>: the cut-off frequencies are divided by the Nyquist
  frequency \<^verbatim>\<open>fs / 2\<close> and must then lie strictly between 0 and 1 and increase; a window
  cannot have a negative length.  The result has \<^verbatim>\<open>numtaps\<close> entries.
\<close>

definition firwin ::
  "library_values \<Rightarrow> int \<Rightarrow> real \<times> real \<Rightarrow> real \<Rightarrow> real \<Rightarrow> exn + npfloat list" where
  "firwin K numtaps cutoff beta fs =
     (let nyq = 0.5 * fs;
          left = fst cutoff / nyq;
          right = snd cutoff / nyq
      in if nyq = 0 \<or> min left right \<le> 0 \<or> 1 \<le> max left right then Inl ValueError
         else if right - left \<le> 0 then Inl ValueError
         else if numtaps < 0 then Inl ValueError
         else Inr (map (firwin_taps K (nat numtaps) cutoff beta fs) [0..<nat numtaps]))"

text \<open>
  \<^verbatim>\<open>scipy.signal.filtfilt(b, 1, x)\<close> with its defaults (\<^verbatim>\<open>padtype='odd'\<close>,
  \<^verbatim>\<open>padlen = 3 * max(len(a), len(b))\<close>): it raises unless \<^verbatim>\<open>len(x) > padlen\<close>, and its
  steady-state initial conditions (\<^verbatim>\<open>lfilter_zi\<close>) need a filter of at least two
  coefficients.  The result has the length of \<^verbatim>\<open>x\<close>.
\<close>

definition filtfilt :: "library_values \<Rightarrow> npfloat list \<Rightarrow> npfloat list \<Rightarrow> exn + npfloat list" where
  "filtfilt K b x =
     (let ntaps = max 1 (length b);
          padlen = 3 * ntaps
      in if length x \<le> padlen then Inl ValueError
         else if ntaps < 2 then Inl ValueError
         else Inr (map (filtfilt_values K b x) [0..<length x]))"

text \<open>
  \<^verbatim>\<open>scipy.signal.correlate(in1, in2)\<close> in its default mode \<^verbatim>\<open>full\<close>: the result has
  \<^verbatim>\<open>len(in1) + len(in2) - 1\<close> entries.
\<close>

definition correlate :: "library_values \<Rightarrow> npfloat list \<Rightarrow> npfloat list \<Rightarrow> npfloat list" where
  "correlate K in1 in2 = map (correlate_values K in1 in2) [0..<length in1 + length in2 - 1]"

subsection \<open>\<^verbatim>\<open>fir_filter\<close> (lines 117 to 123)\<close>

text \<open>
  Lines 118 to 121 compute the tap count and the window parameter that \<^verbatim>\<open>firwin\<close> is
  called with (\<open>fir_design\<close> below).  \<^verbatim>\<open>width / (0.5 * Fs)\<close> raises for \<^verbatim>\<open>Fs = 0\<close>;
  \<^verbatim>\<open>int(len(signal) / 3.5)\<close> truncates a non-negative quotient; \<^verbatim>\<open>numtaps |= 1\<close> sets
  the lowest bit of a Python integer.
\<close>

definition ripple :: real where
  "ripple = 65"

definition width :: real where
  "width = 0.2"

text \<open>Line 118: the order estimate, for the rate-normalised transition width.\<close>

definition order_estimation :: "real \<Rightarrow> exn + (int \<times> real)" where
  "order_estimation Fs =
     (if 0.5 * Fs = 0 then Inl ZeroDivisionError else kaiserord ripple (width / (0.5 * Fs)))"

text \<open>Lines 119 and 120: the cap on the tap count.\<close>

definition cap_numtaps :: "nat \<Rightarrow> int \<Rightarrow> int" where
  "cap_numtaps len_signal numtaps =
     (if real len_signal / 3.5 < real_of_int numtaps then \<lfloor>real len_signal / 3.5\<rfloor>
      else numtaps)"

definition fir_design :: "nat \<Rightarrow> real \<Rightarrow> exn + (int \<times> real)" where
  "fir_design len_signal Fs =
     and_then (order_estimation Fs) (\<lambda>(numtaps, beta).
       Inr (cap_numtaps len_signal numtaps OR 1, beta))"

definition fir_filter ::
  "library_values \<Rightarrow> npfloat list \<Rightarrow> real \<Rightarrow> real \<times> real \<Rightarrow> exn + npfloat list" where
  "fir_filter K signal Fs cutoff =
     and_then (fir_design (length signal) Fs) (\<lambda>(numtaps, beta).
     and_then (firwin K numtaps cutoff beta Fs) (\<lambda>filter_coefs_peak.
       filtfilt K filter_coefs_peak signal))"

subsection \<open>\<^verbatim>\<open>SQI\<close> (lines 5 to 111)\<close>

definition thrUp_intensity :: real where
  "thrUp_intensity = 2.5"

definition thrLow_intensity :: real where
  "thrLow_intensity = 0.04"

definition thr_sumHbratio :: real where
  "thr_sumHbratio = 0.67"

definition thr_acorrDiffODs :: real where
  "thr_acorrDiffODs = 40"

definition slope :: real where
  "slope = 1.795613343002295"

definition intercept :: real where
  "intercept = 0.846108994828045"

text \<open>Lines 60 and 61: some sample of \<^verbatim>\<open>OD1\<close> or \<^verbatim>\<open>OD2\<close> is outside the linear range.\<close>

definition out_of_range :: "npfloat list \<Rightarrow> npfloat list \<Rightarrow> bool" where
  "out_of_range OD1 OD2 \<longleftrightarrow>
     list_ex (\<lambda>x. np_lt x (Fin thrLow_intensity)) OD1 \<or>
     list_ex (\<lambda>x. np_gt x (Fin thrUp_intensity)) OD1 \<or>
     list_ex (\<lambda>x. np_lt x (Fin thrLow_intensity)) OD2 \<or>
     list_ex (\<lambda>x. np_gt x (Fin thrUp_intensity)) OD2"

text \<open>Line 66: one of the two optical densities is a flat line.\<close>

definition flat_line :: "library_values \<Rightarrow> npfloat list \<Rightarrow> npfloat list \<Rightarrow> bool" where
  "flat_line K OD1 OD2 \<longleftrightarrow> np_std K OD1 = Fin 0 \<or> np_std K OD2 = Fin 0"

text \<open>Lines 73 to 76, for one channel: \<^verbatim>\<open>fir_filter(detrend(x), Fs, cutoff=[0.4, 3])\<close>.\<close>

definition preprocess :: "library_values \<Rightarrow> npfloat list \<Rightarrow> real \<Rightarrow> exn + npfloat list" where
  "preprocess K x Fs = and_then (detrend K x) (\<lambda>d. fir_filter K d Fs (0.4, 3))"

text \<open>Line 80: the feature of the third test of rating stage one.\<close>

definition sumHbratio :: "npfloat list \<Rightarrow> npfloat list \<Rightarrow> npfloat" where
  "sumHbratio oxy_filt dxy_filt =
     np_log (np_div (np_sum (map np_abs oxy_filt)) (np_sum (map np_abs dxy_filt)))"

text \<open>Lines 90 to 92: the feature of rating stage two.\<close>

definition autocorr :: "library_values \<Rightarrow> npfloat list \<Rightarrow> npfloat list" where
  "autocorr K x_filt =
     map (\<lambda>c. np_div c (np_sum (map (\<lambda>x. np_mul x x) x_filt))) (correlate K x_filt x_filt)"

definition acorrDiffODs :: "library_values \<Rightarrow> npfloat list \<Rightarrow> npfloat list \<Rightarrow> exn + npfloat" where
  "acorrDiffODs K OD1_filt OD2_filt =
     and_then (np_sub_arrays (autocorr K OD1_filt) (autocorr K OD2_filt)) (\<lambda>d.
       Inr (np_div (Fin 1) (np_std K d)))"

text \<open>Lines 102 to 111: rating stage three.\<close>

definition logStdHb :: "library_values \<Rightarrow> npfloat list \<Rightarrow> npfloat list \<Rightarrow> npfloat" where
  "logStdHb K oxy_filt dxy_filt = np_log (np_div (np_std K oxy_filt) (np_std K dxy_filt))"

definition force_range :: "npfloat \<Rightarrow> npfloat" where
  "force_range SQIscore =
     (if np_lt SQIscore (Fin 1) then Fin 1
      else if np_gt SQIscore (Fin 5) then Fin 5
      else SQIscore)"

definition stage_three :: "library_values \<Rightarrow> npfloat list \<Rightarrow> npfloat list \<Rightarrow> npfloat" where
  "stage_three K oxy_filt dxy_filt =
     force_range (np_add (np_mul (logStdHb K oxy_filt dxy_filt) (Fin slope)) (Fin intercept))"

text \<open>Lines 90 to 111: rating stages two and three.\<close>

definition stage_two ::
  "library_values \<Rightarrow> npfloat list \<Rightarrow> npfloat list \<Rightarrow> npfloat list \<Rightarrow> npfloat list \<Rightarrow> exn + npfloat"
  where
  "stage_two K OD1_filt OD2_filt oxy_filt dxy_filt =
     and_then (acorrDiffODs K OD1_filt OD2_filt) (\<lambda>metric.
       if np_gt metric (Fin thr_acorrDiffODs) then Inr (Fin 5)
       else Inr (stage_three K oxy_filt dxy_filt))"

text \<open>Lines 80 to 111: the rating of the four filtered signals.\<close>

definition rate_filtered ::
  "library_values \<Rightarrow> npfloat list \<Rightarrow> npfloat list \<Rightarrow> npfloat list \<Rightarrow> npfloat list \<Rightarrow> exn + npfloat"
  where
  "rate_filtered K OD1_filt OD2_filt oxy_filt dxy_filt =
     (if np_lt (sumHbratio oxy_filt dxy_filt) (Fin thr_sumHbratio) then Inr (Fin 1)
      else stage_two K OD1_filt OD2_filt oxy_filt dxy_filt)"

definition SQI ::
  "library_values \<Rightarrow> npfloat list \<Rightarrow> npfloat list \<Rightarrow> npfloat list \<Rightarrow> npfloat list \<Rightarrow> real
     \<Rightarrow> exn + npfloat" where
  "SQI K OD1 OD2 oxy dxy Fs =
     (if out_of_range OD1 OD2 then Inr (Fin 1)
      else if flat_line K OD1 OD2 then Inr (Fin 1)
      else
        and_then (preprocess K OD1 Fs) (\<lambda>OD1_filt.
        and_then (preprocess K OD2 Fs) (\<lambda>OD2_filt.
        and_then (preprocess K oxy Fs) (\<lambda>oxy_filt.
        and_then (preprocess K dxy Fs) (\<lambda>dxy_filt.
          rate_filtered K OD1_filt OD2_filt oxy_filt dxy_filt)))))"

text \<open>
  A stand-in for the library's numbers, used to run the program on concrete inputs: no
  trend is removed, the designed filter is the unit impulse and filtering returns its
  input, the standard deviation is the exact one, and the correlation of two arrays of
  the same length \<^verbatim>\<open>N\<close> is the exact sum of products \<^verbatim>\<open>in1[l] * in2[l - k + N - 1]\<close>.
\<close>

definition std_real :: "real list \<Rightarrow> real" where
  "std_real xs = sqrt (mean (map (\<lambda>x. (x - mean xs)\<^sup>2) xs))"

definition passthrough :: library_values where
  "passthrough =
     \<lparr> detrend_values = (\<lambda>data i. data ! i),
       firwin_taps = (\<lambda>numtaps cutoff beta fs n. Fin (if 2 * n + 1 = numtaps then 1 else 0)),
       filtfilt_values = (\<lambda>b x i. x ! i),
       correlate_values = (\<lambda>in1 in2 k.
         np_sum (map (\<lambda>l. if k \<le> l + length in2 - 1 \<and> l + length in2 - 1 - k < length in2
                         then np_mul (in1 ! l) (in2 ! (l + length in2 - 1 - k)) else Fin 0)
                   [0..<length in1])),
       std_value = (\<lambda>xs. Fin (std_real (map the_fin xs))) \<rparr>"

text \<open>
  Four ten-sample signals on which the program is run below: two optical densities inside
  the linear range with different periodicity, and two haemoglobin signals whose
  amplitudes are in the ratio three to one.
\<close>

definition example_OD1 :: "npfloat list" where
  "example_OD1 = [Fin 1, Fin 2, Fin 1, Fin 2, Fin 1, Fin 2, Fin 1, Fin 2, Fin 1, Fin 2]"

definition example_OD2 :: "npfloat list" where
  "example_OD2 = [Fin 1, Fin 1, Fin 2, Fin 2, Fin 1, Fin 1, Fin 2, Fin 2, Fin 1, Fin 1]"

definition example_oxy :: "npfloat list" where
  "example_oxy = [Fin 3, Fin (- 3), Fin 3, Fin (- 3), Fin 3, Fin (- 3), Fin 3, Fin (- 3), Fin 3, Fin (- 3)]"

definition example_dxy :: "npfloat list" where
  "example_dxy = [Fin 1, Fin (- 1), Fin 1, Fin (- 1), Fin 1, Fin (- 1), Fin 1, Fin (- 1), Fin 1, Fin (- 1)]"

text \<open>
  The stand-in with \<^verbatim>\<open>np.std\<close> as float64 arithmetic computes it on three samples of
  0.1: their sum is 0.30000000000000004, the mean 0.10000000000000002, every deviation
  one unit in the last place of 0.1, and the result \<open>1 / 2 ^ 56\<close>, about 1.39e-17.
\<close>

definition rounded_std :: library_values where
  "rounded_std =
     passthrough \<lparr> std_value :=
       (\<lambda>xs. if xs = [Fin 0.1, Fin 0.1, Fin 0.1] then Fin (1 / 2 ^ 56)
             else std_value passthrough xs) \<rparr>"

text \<open>
  Kaiser's order formula for the program's ripple and width is \<open>kaiser_const * Fs / pi\<close>.
\<close>

definition kaiser_const :: real where
  "kaiser_const = (65 - 7.95) / 2.285 / 0.4"

section \<open>Basic facts\<close>

lemma and_then_Inl [simp]: "and_then (Inl e) f = Inl e"
  by (simp add: and_then_def)

lemma and_then_Inr [simp]: "and_then (Inr v) f = f v"
  by (simp add: and_then_def)

lemma and_then_eq_Inr_iff:
  "and_then m f = Inr y \<longleftrightarrow> (\<exists>v. m = Inr v \<and> f v = Inr y)"
  by (cases m) simp_all

subsection \<open>The exact standard deviation, and the one of the stand-in\<close>

lemma sum_list_sq_eq_0_iff:
  fixes f :: "'a \<Rightarrow> real"
  shows "sum_list (map (\<lambda>x. (f x)\<^sup>2) xs) = 0 \<longleftrightarrow> (\<forall>x\<in>set xs. f x = 0)"
proof (induction xs)
  case Nil
  then show ?case by simp
next
  case (Cons a xs)
  have "0 \<le> sum_list (map (\<lambda>x. (f x)\<^sup>2) xs)"
    by (rule sum_list_nonneg) auto
  then show ?case
    using Cons by (auto simp: add_nonneg_eq_0_iff)
qed

lemma std_real_eq_0_iff:
  assumes "xs \<noteq> []"
  shows "std_real xs = 0 \<longleftrightarrow> (\<forall>x\<in>set xs. x = mean xs)"
  using assms by (simp add: std_real_def mean_def[of "map _ _"] sum_list_sq_eq_0_iff)

lemma mean_replicate: "0 < n \<Longrightarrow> mean (replicate n c) = c"
  by (simp add: mean_def sum_list_replicate)

lemma std_real_replicate: "0 < n \<Longrightarrow> std_real (replicate n c) = 0"
  by (simp add: std_real_eq_0_iff mean_replicate)

lemma std_real_two_values:
  assumes "a \<in> set xs" "b \<in> set xs" "a \<noteq> b"
  shows "std_real xs \<noteq> 0"
proof -
  from assms have ne: "xs \<noteq> []" by auto
  show ?thesis
  proof
    assume "std_real xs = 0"
    with ne have "\<forall>x\<in>set xs. x = mean xs" by (simp add: std_real_eq_0_iff)
    with assms have "a = mean xs" "b = mean xs" by blast+
    with assms show False by simp
  qed
qed

lemma np_std_passthrough:
  "np_std passthrough xs =
     (if xs = [] \<or> \<not> list_all is_fin xs then NaN else Fin (std_real (map the_fin xs)))"
proof (cases "xs \<noteq> [] \<and> list_all (\<lambda>x. x = Fin 0) xs")
  case True
  then have "xs = replicate (length xs) (Fin 0)"
    by (intro replicate_eqI) (auto simp: list_all_iff)
  then have "map the_fin xs = replicate (length xs) 0"
    by (metis map_replicate the_fin.simps(1))
  then have "std_real (map the_fin xs) = 0"
    using True by (simp add: std_real_replicate)
  moreover have "list_all is_fin xs" using True by (auto simp: list_all_iff)
  ultimately show ?thesis using True by (simp add: np_std_def)
next
  case False
  then show ?thesis by (auto simp: np_std_def passthrough_def)
qed

subsection \<open>The filter design\<close>

lemma kaiserord_ripple:
  assumes "w \<noteq> 0"
  shows "kaiserord ripple w =
     (if float_max < \<bar>57.05 / 2.285 / (pi * w) + 1\<bar> then Inl OverflowError
      else Inr (\<lceil>57.05 / 2.285 / (pi * w) + 1\<rceil>, 0.1102 * 56.3))"
  using assms by (simp add: kaiserord_def ripple_def kaiser_beta_def Let_def)

lemma order_closed_form:
  assumes "Fs \<noteq> 0"
  shows "57.05 / 2.285 / (pi * (width / (0.5 * Fs))) = kaiser_const * Fs / pi"
  using assms by (simp add: width_def kaiser_const_def)

lemma order_estimation_cases:
  assumes "Fs \<noteq> 0"
  shows "order_estimation Fs =
     (if float_max < \<bar>kaiser_const * Fs / pi + 1\<bar> then Inl OverflowError
      else Inr (\<lceil>kaiser_const * Fs / pi + 1\<rceil>, 0.1102 * 56.3))"
proof -
  have "width / (0.5 * Fs) \<noteq> 0" using assms by (simp add: width_def)
  then have "kaiserord ripple (width / (0.5 * Fs)) =
     (if float_max < \<bar>57.05 / 2.285 / (pi * (width / (0.5 * Fs))) + 1\<bar> then Inl OverflowError
      else Inr (\<lceil>57.05 / 2.285 / (pi * (width / (0.5 * Fs))) + 1\<rceil>, 0.1102 * 56.3))"
    by (rule kaiserord_ripple)
  moreover have "0.5 * Fs \<noteq> 0" using assms by simp
  ultimately show ?thesis
    by (simp only: order_estimation_def if_False order_closed_form[OF assms])
qed

lemma kaiser_const_bounds: "62 < kaiser_const" "kaiser_const < 63"
  by (simp_all add: kaiser_const_def)

lemma float_max_ge: "10 ^ 302 \<le> float_max"
  by (simp add: float_max_def)

text \<open>Up to \<open>10 ^ 300\<close> Hz the order estimate is far below the largest float64.\<close>

lemma no_overflow:
  assumes "\<bar>Fs\<bar> \<le> 10 ^ 300"
  shows "\<not> float_max < \<bar>kaiser_const * Fs / pi + 1\<bar>"
proof -
  have "\<bar>kaiser_const * Fs / pi\<bar> = kaiser_const * \<bar>Fs\<bar> / pi"
    using kaiser_const_bounds by (simp add: abs_mult)
  also have "\<dots> \<le> kaiser_const * \<bar>Fs\<bar> / 2"
    using kaiser_const_bounds pi_ge_two by (intro divide_left_mono) simp_all
  also have "\<dots> \<le> 63 * 10 ^ 300 / 2"
    using kaiser_const_bounds assms by (intro divide_right_mono mult_mono) simp_all
  finally have "\<bar>kaiser_const * Fs / pi + 1\<bar> \<le> 63 * 10 ^ 300 / 2 + 1"
    by linarith
  also have "\<dots> \<le> (10 ^ 302 :: real)" by simp
  finally show ?thesis using float_max_ge by linarith
qed

lemma order_estimation_eq:
  assumes "Fs \<noteq> 0" "\<bar>Fs\<bar> \<le> 10 ^ 300"
  shows "order_estimation Fs = Inr (\<lceil>kaiser_const * Fs / pi + 1\<rceil>, 0.1102 * 56.3)"
  using no_overflow[OF assms(2)] by (simp only: order_estimation_cases[OF assms(1)] if_False)

lemma order_estimation_0: "order_estimation 0 = Inl ZeroDivisionError"
  by (simp add: order_estimation_def)

lemma fir_design_eq:
  assumes "Fs \<noteq> 0" "\<bar>Fs\<bar> \<le> 10 ^ 300"
  shows "fir_design n Fs =
    Inr (cap_numtaps n \<lceil>kaiser_const * Fs / pi + 1\<rceil> OR 1, 0.1102 * 56.3)"
  by (simp only: fir_design_def order_estimation_eq[OF assms] and_then_Inr prod.case)

lemma fir_design_0: "fir_design n 0 = Inl ZeroDivisionError"
  by (simp add: fir_design_def order_estimation_0)

lemma fir_design_Inr:
  assumes "fir_design n Fs = Inr (numtaps, beta)"
  shows "\<exists>estimate. numtaps = cap_numtaps n estimate OR 1"
  using assms by (auto simp: fir_design_def and_then_eq_Inr_iff)

lemma cap_numtaps_le: "cap_numtaps n numtaps \<le> \<lfloor>real n / 3.5\<rfloor>"
proof -
  define x where "x = real n / 3.5"
  have "(if x < real_of_int numtaps then \<lfloor>x\<rfloor> else numtaps) \<le> \<lfloor>x\<rfloor>"
    by (simp add: le_floor_iff)
  then show ?thesis by (simp only: cap_numtaps_def x_def)
qed

lemma or_one_bounds:
  fixes k :: int
  shows "odd (k OR 1)" "k \<le> k OR 1" "k OR 1 \<le> k + 1"
  by (simp_all add: or_one_eq)

lemma order_bounds:
  assumes "0 < Fs"
  shows "kaiser_const * Fs / 4 < kaiser_const * Fs / pi"
    and "kaiser_const * Fs / pi \<le> kaiser_const * Fs / 2"
proof -
  have pos: "0 < kaiser_const * Fs" using assms kaiser_const_bounds by simp
  show "kaiser_const * Fs / 4 < kaiser_const * Fs / pi"
    using pos pi_less_4 pi_gt_zero by (intro divide_strict_left_mono) simp_all
  show "kaiser_const * Fs / pi \<le> kaiser_const * Fs / 2"
    using pos pi_ge_two by (intro divide_left_mono) simp_all
qed

lemma fir_design_capped:
  assumes "0 < Fs" and "Fs \<le> 10 ^ 300" and "real n / 3.5 < kaiser_const * Fs / 4 + 1"
  shows "fir_design n Fs = Inr (\<lfloor>real n / 3.5\<rfloor> OR 1, 0.1102 * 56.3)"
proof -
  define N where "N = \<lceil>kaiser_const * Fs / pi + 1\<rceil>"
  have "real n / 3.5 < kaiser_const * Fs / pi + 1"
    using order_bounds(1)[OF assms(1)] assms(3) by linarith
  also have "\<dots> \<le> real_of_int N"
    unfolding N_def by (rule le_of_int_ceiling)
  finally have c: "cap_numtaps n N = \<lfloor>real n / 3.5\<rfloor>"
    by (simp only: cap_numtaps_def if_True)
  have "Fs \<noteq> 0" "\<bar>Fs\<bar> \<le> 10 ^ 300" using assms by simp_all
  then have "fir_design n Fs = Inr (cap_numtaps n N OR 1, 0.1102 * 56.3)"
    unfolding N_def by (rule fir_design_eq)
  then show ?thesis by (simp only: c)
qed

text \<open>Above 6 Hz every window of fewer than 329 samples is capped.\<close>

lemma fir_design_capped_above_6:
  assumes "6 < Fs" and "Fs \<le> 10 ^ 300" and "n \<le> 328"
  shows "fir_design n Fs = Inr (\<lfloor>real n / 3.5\<rfloor> OR 1, 0.1102 * 56.3)"
proof -
  have "62 * 6 < kaiser_const * Fs"
    using assms(1) kaiser_const_bounds by (intro mult_strict_mono) simp_all
  moreover have "real n \<le> 328" using assms(3) by simp
  ultimately have "real n / 3.5 < kaiser_const * Fs / 4 + 1" by simp
  with assms show ?thesis by (intro fir_design_capped) simp_all
qed

lemma fir_design_at_10:
  "fir_design 21 10 = Inr (7, 0.1102 * 56.3)"
  "fir_design 20 10 = Inr (5, 0.1102 * 56.3)"
  "fir_design 10 10 = Inr (3, 0.1102 * 56.3)"
  "fir_design 3 10 = Inr (1, 0.1102 * 56.3)"
  "fir_design 14 10 = Inr (5, 0.1102 * 56.3)"
  "fir_design 15 10 = Inr (5, 0.1102 * 56.3)"
  using fir_design_capped_above_6[of 10 21] fir_design_capped_above_6[of 10 20]
    fir_design_capped_above_6[of 10 10] fir_design_capped_above_6[of 10 3]
    fir_design_capped_above_6[of 10 14] fir_design_capped_above_6[of 10 15]
  by simp_all

lemmas fir_design_21_10 = fir_design_at_10(1)

lemmas fir_design_10_10 = fir_design_at_10(3)

subsection \<open>Rating stage one, before filtering\<close>

lemma SQI_pass_A:
  "out_of_range OD1 OD2 \<or> flat_line K OD1 OD2 \<Longrightarrow> SQI K OD1 OD2 oxy dxy Fs = Inr (Fin 1)"
  by (auto simp: SQI_def)

lemma SQI_past_A:
  "\<not> out_of_range OD1 OD2 \<Longrightarrow> \<not> flat_line K OD1 OD2 \<Longrightarrow>
   SQI K OD1 OD2 oxy dxy Fs =
     and_then (preprocess K OD1 Fs) (\<lambda>OD1_filt.
     and_then (preprocess K OD2 Fs) (\<lambda>OD2_filt.
     and_then (preprocess K oxy Fs) (\<lambda>oxy_filt.
     and_then (preprocess K dxy Fs) (\<lambda>dxy_filt.
       rate_filtered K OD1_filt OD2_filt oxy_filt dxy_filt))))"
  by (simp add: SQI_def)

subsection \<open>When the library calls raise\<close>

lemma detrend_Inr:
  assumes "data \<noteq> []" "list_all is_fin data"
  shows "detrend K data = Inr (map (detrend_values K data) [0..<length data])"
  using assms by (simp add: detrend_def)

lemma detrend_Inl:
  assumes "data = [] \<or> \<not> list_all is_fin data"
  shows "detrend K data = Inl ValueError"
  using assms by (auto simp: detrend_def)

lemma detrend_length: "detrend K data = Inr d \<Longrightarrow> length d = length data"
  by (auto simp: detrend_def split: if_splits)

lemma firwin_band_Inr:
  assumes "6 < Fs" "0 \<le> numtaps"
  shows "firwin K numtaps (0.4, 3) beta Fs =
           Inr (map (firwin_taps K (nat numtaps) (0.4, 3) beta Fs) [0..<nat numtaps])"
proof -
  define l where "l = 0.4 / (0.5 * Fs)"
  define r where "r = 3 / (0.5 * Fs)"
  have "0 < l" "l < r" "r < 1"
    using assms(1) by (simp_all add: l_def r_def field_simps)
  then have "\<not> (0.5 * Fs = 0 \<or> min l r \<le> 0 \<or> 1 \<le> max l r)" and "\<not> r - l \<le> 0"
    using assms(1) by auto
  moreover have "\<not> numtaps < 0" using assms(2) by simp
  ultimately show ?thesis
    by (simp only: firwin_def Let_def fst_conv snd_conv if_False l_def r_def)
qed

lemma firwin_band_Inl:
  assumes "Fs \<le> 6"
  shows "firwin K numtaps (0.4, 3) beta Fs = Inl ValueError"
proof (cases "Fs \<le> 0")
  case True
  then have "0.4 / (0.5 * Fs) \<le> 0" by (simp add: divide_nonneg_nonpos field_simps)
  then show ?thesis by (simp add: firwin_def Let_def min_def)
next
  case False
  with assms have "1 \<le> 3 / (0.5 * Fs)" by simp
  then show ?thesis by (simp add: firwin_def Let_def max_def)
qed

lemma filtfilt_Inr:
  assumes "2 \<le> length b" "3 * length b < length x"
  shows "filtfilt K b x = Inr (map (filtfilt_values K b x) [0..<length x])"
  using assms by (simp add: filtfilt_def Let_def max_def)

lemma filtfilt_length: "filtfilt K b x = Inr y \<Longrightarrow> length y = length x"
  by (auto simp: filtfilt_def Let_def split: if_splits)

lemma fir_filter_low_rate:
  assumes "Fs \<le> 6"
  shows "\<exists>e. fir_filter K signal Fs (0.4, 3) = Inl e"
proof (cases "fir_design (length signal) Fs")
  case (Inl e)
  then show ?thesis by (simp add: fir_filter_def)
next
  case (Inr p)
  obtain numtaps beta where "p = (numtaps, beta)" by (cases p)
  moreover have "firwin K numtaps (0.4, 3) beta Fs = Inl ValueError"
    using assms by (rule firwin_band_Inl)
  ultimately show ?thesis
    using Inr by (simp only: fir_filter_def and_then_Inr and_then_Inl prod.case) blast
qed

lemma preprocess_low_rate:
  assumes "Fs \<le> 6"
  shows "\<exists>e. preprocess K x Fs = Inl e"
proof (cases "detrend K x")
  case (Inl e)
  then show ?thesis by (simp add: preprocess_def)
next
  case (Inr d)
  then show ?thesis
    using fir_filter_low_rate[OF assms] by (simp add: preprocess_def)
qed

lemma preprocess_not_finite:
  assumes "\<not> list_all is_fin x"
  shows "preprocess K x Fs = Inl ValueError"
  using assms by (simp add: preprocess_def detrend_Inl)

text \<open>
  Windows of fewer than ten samples: the cap leaves one tap (up to six samples) or three
  (seven to nine), and \<^verbatim>\<open>filtfilt\<close> refuses both.
\<close>

lemma short_window_taps:
  assumes "n \<le> 9"
  shows "n \<le> 3 * nat (\<lfloor>real n / 3.5\<rfloor> OR 1) \<or> nat (\<lfloor>real n / 3.5\<rfloor> OR 1) < 2"
proof -
  from assms have "n \<in> {0, 1, 2, 3, 4, 5, 6, 7, 8, 9}" by auto
  then show ?thesis by (elim insertE) simp_all
qed

lemma fir_design_above_6:
  assumes "6 < Fs" "n \<le> 328"
  shows "fir_design n Fs = Inl OverflowError \<or>
         fir_design n Fs = Inr (\<lfloor>real n / 3.5\<rfloor> OR 1, 0.1102 * 56.3)"
proof -
  define N where "N = \<lceil>kaiser_const * Fs / pi + 1\<rceil>"
  have Fs: "0 < Fs" "Fs \<noteq> 0" using assms by simp_all
  have "62 * 6 < kaiser_const * Fs"
    using assms(1) kaiser_const_bounds by (intro mult_strict_mono) simp_all
  moreover have "real n \<le> 328" using assms(2) by simp
  ultimately have "real n / 3.5 < kaiser_const * Fs / 4 + 1" by simp
  then have "real n / 3.5 < kaiser_const * Fs / pi + 1"
    using order_bounds(1)[OF Fs(1)] by linarith
  also have "\<dots> \<le> real_of_int N"
    unfolding N_def by (rule le_of_int_ceiling)
  finally have c: "cap_numtaps n N = \<lfloor>real n / 3.5\<rfloor>"
    by (simp only: cap_numtaps_def if_True)
  show ?thesis
  proof (cases "float_max < \<bar>kaiser_const * Fs / pi + 1\<bar>")
    case True
    then show ?thesis
      by (simp add: fir_design_def order_estimation_cases[OF Fs(2)])
  next
    case False
    then have "fir_design n Fs = Inr (cap_numtaps n N OR 1, 0.1102 * 56.3)"
      unfolding N_def
      by (simp only: fir_design_def order_estimation_cases[OF Fs(2)] if_False and_then_Inr
          prod.case)
    then show ?thesis by (simp only: c simp_thms)
  qed
qed

lemma fir_filter_short_window:
  assumes "length signal \<le> 9"
  shows "\<exists>e. fir_filter K signal Fs (0.4, 3) = Inl e"
proof (cases "Fs \<le> 6")
  case True
  then show ?thesis by (rule fir_filter_low_rate)
next
  case False
  then have Fs: "6 < Fs" by simp
  define numtaps where "numtaps = \<lfloor>real (length signal) / 3.5\<rfloor> OR 1"
  from assms have "length signal \<le> 328" by simp
  with Fs have "fir_design (length signal) Fs = Inl OverflowError \<or>
      fir_design (length signal) Fs = Inr (numtaps, 0.1102 * 56.3)"
    unfolding numtaps_def by (rule fir_design_above_6)
  then show ?thesis
  proof (elim disjE)
    assume "fir_design (length signal) Fs = Inl OverflowError"
    then show ?thesis by (simp add: fir_filter_def)
  next
    assume 2: "fir_design (length signal) Fs = Inr (numtaps, 0.1102 * 56.3)"
    have "0 \<le> numtaps" unfolding numtaps_def by simp
    define b where
      "b = map (firwin_taps K (nat numtaps) (0.4, 3) (0.1102 * 56.3) Fs) [0..<nat numtaps]"
    have w: "firwin K numtaps (0.4, 3) (0.1102 * 56.3) Fs = Inr b"
      unfolding b_def using Fs \<open>0 \<le> numtaps\<close> by (rule firwin_band_Inr)
    have lb: "length b = nat numtaps" by (simp add: b_def)
    have "length signal \<le> 3 * nat numtaps \<or> nat numtaps < 2"
      unfolding numtaps_def using assms by (rule short_window_taps)
    then have "filtfilt K b signal = Inl ValueError"
      by (auto simp: filtfilt_def Let_def lb max_def)
    with 2 w show ?thesis by (simp add: fir_filter_def)
  qed
qed

lemma preprocess_short_window:
  assumes "length x \<le> 9"
  shows "\<exists>e. preprocess K x Fs = Inl e"
proof (cases "detrend K x")
  case (Inl e)
  then show ?thesis by (simp add: preprocess_def)
next
  case (Inr d)
  then have "length d \<le> 9" using assms detrend_length by fastforce
  then show ?thesis
    using Inr fir_filter_short_window[of d K Fs] by (simp add: preprocess_def)
qed

text \<open>
  Windows of at least ten samples, other than 14, 15 and 21: the tap count is at least 3
  and three times it is less than the window, which is what \<^verbatim>\<open>filtfilt\<close> asks for.
\<close>

lemma small_window_taps:
  assumes "n \<in> {10, 11, 12, 13, 16, 17, 18, 19, 20}"
  shows "3 \<le> \<lfloor>real n / 3.5\<rfloor> OR 1 \<and> 3 * (\<lfloor>real n / 3.5\<rfloor> OR 1) < int n"
  using assms by (elim insertE) simp_all

lemma fir_design_long_window:
  assumes "0 < Fs" "Fs \<le> 10 ^ 300" "22 \<le> n"
  obtains numtaps beta where "fir_design n Fs = Inr (numtaps, beta)"
    and "3 \<le> numtaps" and "3 * numtaps < int n"
proof -
  define N where "N = \<lceil>kaiser_const * Fs / pi + 1\<rceil>"
  define c where "c = cap_numtaps n N"
  have Fs0: "Fs \<noteq> 0" "\<bar>Fs\<bar> \<le> 10 ^ 300" using assms by simp_all
  have d: "fir_design n Fs = Inr (c OR 1, 0.1102 * 56.3)"
    unfolding c_def N_def using Fs0 by (rule fir_design_eq)
  have "0 < kaiser_const * Fs / pi"
    using assms kaiser_const_bounds by simp
  then have "1 < kaiser_const * Fs / pi + 1" by simp
  then have "1 < N" unfolding N_def by (simp only: less_ceiling_iff of_int_1)
  have "(6::real) \<le> real n / 3.5" using assms by simp
  then have fl: "6 \<le> \<lfloor>real n / 3.5\<rfloor>" by (simp only: le_floor_iff of_int_numeral)
  have "2 \<le> c"
    unfolding c_def cap_numtaps_def using \<open>1 < N\<close> fl by (simp only: split: if_split) linarith
  then have lo: "3 \<le> c OR 1"
    using or_one_bounds(1,2)[of c] by (cases "c = 2") auto
  have "c \<le> \<lfloor>real n / 3.5\<rfloor>" unfolding c_def by (rule cap_numtaps_le)
  then have "c OR 1 \<le> \<lfloor>real n / 3.5\<rfloor> + 1"
    using or_one_bounds(3)[of c] by linarith
  then have "real_of_int (c OR 1) \<le> real_of_int (\<lfloor>real n / 3.5\<rfloor> + 1)"
    by (simp only: of_int_le_iff)
  also have "\<dots> \<le> real n / 3.5 + 1"
    using of_int_floor_le[of "real n / 3.5"] by (simp only: of_int_add of_int_1 add_le_cancel_right)
  finally have "real_of_int (c OR 1) \<le> real n * 2 / 7 + 1" by simp
  moreover have "(22::real) \<le> real n" using assms by simp
  ultimately have "3 * real_of_int (c OR 1) < real n" by linarith
  then have hi: "3 * (c OR 1) < int n"
    by (metis of_int_less_iff of_int_mult of_int_numeral of_int_of_nat_eq)
  from d lo hi show thesis by (rule that)
qed

lemma fir_design_window:
  assumes "6 < Fs" "Fs \<le> 10 ^ 300" "10 \<le> n" "n \<noteq> 14" "n \<noteq> 15" "n \<noteq> 21"
  shows "\<exists>numtaps beta. fir_design n Fs = Inr (numtaps, beta) \<and> 3 \<le> numtaps \<and>
           3 * numtaps < int n"
proof (cases "22 \<le> n")
  case True
  with assms show ?thesis
    using fir_design_long_window[of Fs n] by (metis less_trans zero_less_numeral)
next
  case False
  with assms(3-6) have "n = 10 \<or> n = 11 \<or> n = 12 \<or> n = 13 \<or> n = 16 \<or> n = 17 \<or> n = 18 \<or>
      n = 19 \<or> n = 20"
    by arith
  then have n: "n \<in> {10, 11, 12, 13, 16, 17, 18, 19, 20}" by blast
  then have "n \<le> 328" by auto
  with assms have "fir_design n Fs = Inr (\<lfloor>real n / 3.5\<rfloor> OR 1, 0.1102 * 56.3)"
    by (intro fir_design_capped_above_6)
  with small_window_taps[OF n] show ?thesis by blast
qed

lemma fir_filter_window:
  assumes "6 < Fs" "Fs \<le> 10 ^ 300"
    and "10 \<le> length signal" "length signal \<noteq> 14" "length signal \<noteq> 15" "length signal \<noteq> 21"
  shows "\<exists>y. fir_filter K signal Fs (0.4, 3) = Inr y \<and> length y = length signal"
proof -
  from fir_design_window[OF assms]
  obtain numtaps beta where d: "fir_design (length signal) Fs = Inr (numtaps, beta)"
    and lo: "3 \<le> numtaps" and hi: "3 * numtaps < int (length signal)"
    by blast
  define b where "b = map (firwin_taps K (nat numtaps) (0.4, 3) beta Fs) [0..<nat numtaps]"
  have w: "firwin K numtaps (0.4, 3) beta Fs = Inr b"
    unfolding b_def using assms(1) lo by (intro firwin_band_Inr) simp_all
  have "length b = nat numtaps" by (simp add: b_def)
  with lo hi have "2 \<le> length b" "3 * length b < length signal" by linarith+
  then have "filtfilt K b signal = Inr (map (filtfilt_values K b signal) [0..<length signal])"
    by (rule filtfilt_Inr)
  with d w show ?thesis by (simp add: fir_filter_def)
qed

lemma preprocess_window:
  assumes "6 < Fs" "Fs \<le> 10 ^ 300"
    and "10 \<le> length x" "length x \<noteq> 14" "length x \<noteq> 15" "length x \<noteq> 21"
    and "list_all is_fin x"
  shows "\<exists>y. preprocess K x Fs = Inr y \<and> length y = length x"
proof -
  from assms have ne: "x \<noteq> []" by auto
  define d where "d = map (detrend_values K x) [0..<length x]"
  have "detrend K x = Inr d" unfolding d_def using ne assms(7) by (rule detrend_Inr)
  moreover have "length d = length x" by (simp add: d_def)
  ultimately show ?thesis
    using fir_filter_window[of Fs d K] assms by (simp add: preprocess_def)
qed

lemma np_sub_arrays_same_length:
  "length xs = length ys \<Longrightarrow> np_sub_arrays xs ys = Inr (map2 np_sub xs ys)"
  by (simp add: np_sub_arrays_def)

lemma length_autocorr: "length (autocorr K x) = 2 * length x - 1"
  by (simp add: autocorr_def correlate_def)

lemma acorrDiffODs_same_length:
  assumes "length OD1_filt = length OD2_filt"
  shows "acorrDiffODs K OD1_filt OD2_filt =
    Inr (np_div (Fin 1) (np_std K (map2 np_sub (autocorr K OD1_filt) (autocorr K OD2_filt))))"
  using assms by (simp add: acorrDiffODs_def np_sub_arrays_same_length length_autocorr)

lemma rate_filtered_returns:
  assumes "length OD1_filt = length OD2_filt"
  shows "\<exists>s. rate_filtered K OD1_filt OD2_filt oxy_filt dxy_filt = Inr s"
  using assms by (simp add: rate_filtered_def stage_two_def acorrDiffODs_same_length)

text \<open>The two haemoglobin channels need not be as long as the optical densities.\<close>

lemma SQI_returns:
  assumes "list_all is_fin OD1" "list_all is_fin OD2" "list_all is_fin oxy" "list_all is_fin dxy"
    and "length OD1 = length OD2"
    and "10 \<le> length OD1" "length OD1 \<noteq> 14" "length OD1 \<noteq> 15" "length OD1 \<noteq> 21"
    and "10 \<le> length oxy" "length oxy \<noteq> 14" "length oxy \<noteq> 15" "length oxy \<noteq> 21"
    and "10 \<le> length dxy" "length dxy \<noteq> 14" "length dxy \<noteq> 15" "length dxy \<noteq> 21"
    and "6 < Fs" "Fs \<le> 10 ^ 300"
  shows "\<exists>score. SQI K OD1 OD2 oxy dxy Fs = Inr score"
proof (cases "out_of_range OD1 OD2 \<or> flat_line K OD1 OD2")
  case True
  then show ?thesis by (auto simp: SQI_def)
next
  case False
  obtain f1 where f1: "preprocess K OD1 Fs = Inr f1" "length f1 = length OD1"
    using preprocess_window[of Fs OD1 K] assms by auto
  obtain f2 where f2: "preprocess K OD2 Fs = Inr f2" "length f2 = length OD2"
    using preprocess_window[of Fs OD2 K] assms by auto
  obtain f3 where f3: "preprocess K oxy Fs = Inr f3"
    using preprocess_window[of Fs oxy K] assms by auto
  obtain f4 where f4: "preprocess K dxy Fs = Inr f4"
    using preprocess_window[of Fs dxy K] assms by auto
  from f1 f2 assms(5) have "\<exists>s. rate_filtered K f1 f2 f3 f4 = Inr s"
    by (intro rate_filtered_returns) simp
  with False f1 f2 f3 f4 show ?thesis by (simp add: SQI_def)
qed

subsection \<open>The rating of the filtered signals\<close>

lemma preprocess_length: "preprocess K x Fs = Inr y \<Longrightarrow> length y = length x"
  by (auto simp: preprocess_def fir_filter_def and_then_eq_Inr_iff
      dest!: detrend_length filtfilt_length split: prod.splits)


lemma SQI_filtered:
  assumes "\<not> out_of_range OD1 OD2" "\<not> flat_line K OD1 OD2"
    and "preprocess K OD1 Fs = Inr OD1_filt" "preprocess K OD2 Fs = Inr OD2_filt"
    and "preprocess K oxy Fs = Inr oxy_filt" "preprocess K dxy Fs = Inr dxy_filt"
  shows "SQI K OD1 OD2 oxy dxy Fs = rate_filtered K OD1_filt OD2_filt oxy_filt dxy_filt"
  using assms by (simp add: SQI_past_A)

lemma force_range_cases:
  "force_range x =
     (case x of Fin r \<Rightarrow> Fin (max 1 (min 5 r)) | PInf \<Rightarrow> Fin 5 | NInf \<Rightarrow> Fin 1 | NaN \<Rightarrow> NaN)"
  by (cases x) (auto simp: force_range_def np_gt_def)

lemma np_sum_zeros: "set xs \<subseteq> {Fin 0} \<Longrightarrow> np_sum (map np_abs xs) = Fin 0"
  by (induction xs) (auto simp: np_sum_def)

lemma np_std_zeros: "set xs \<subseteq> {Fin 0} \<Longrightarrow> np_std K xs = Fin 0 \<or> np_std K xs = NaN"
  by (auto simp: np_std_def list_all_iff)

lemma np_std_same_std_value: "np_std (K'\<lparr>std_value := std_value K\<rparr>) xs = np_std K xs"
  by (simp add: np_std_def)

lemma stage_three_range:
  "stage_three K oxy_filt dxy_filt = NaN \<or>
   (\<exists>r. stage_three K oxy_filt dxy_filt = Fin r \<and> 1 \<le> r \<and> r \<le> 5)"
  unfolding stage_three_def force_range_cases
  by (simp split: npfloat.split)

subsection \<open>The program on the example signals\<close>

lemmas examples = example_OD1_def example_OD2_def example_oxy_def example_dxy_def

lemma upt_19: "[0..<19] = [0,1,2,3,4,5,6,7,8,9,10,11,12,13,14,15,16,17,18]"
  by (simp add: upt_rec)

lemma upt_10: "[0..<10] = [0,1,2,3,4,5,6,7,8,9]"
  by (simp add: upt_rec)

lemma detrend_passthrough:
  assumes "x \<noteq> []" "list_all is_fin x"
  shows "detrend passthrough x = Inr x"
  using assms by (simp add: detrend_def passthrough_def map_nth)

lemma fir_filter_passthrough_10:
  assumes "length x = 10"
  shows "fir_filter passthrough x 10 (0.4, 3) = Inr x"
proof -
  have "firwin passthrough 3 (0.4, 3) (0.1102 * 56.3) 10 =
      Inr (map (firwin_taps passthrough (nat 3) (0.4, 3) (0.1102 * 56.3) 10) [0..<nat 3])"
    by (rule firwin_band_Inr) simp_all
  moreover have "filtfilt passthrough b x = Inr x" if "length b = 3" for b
  proof -
    have "filtfilt passthrough b x = Inr (map (filtfilt_values passthrough b x) [0..<length x])"
      using that assms by (intro filtfilt_Inr) simp_all
    then show ?thesis by (simp add: passthrough_def map_nth)
  qed
  ultimately show ?thesis
    using assms by (simp add: fir_filter_def fir_design_10_10)
qed

lemma preprocess_passthrough_10:
  assumes "length x = 10" "list_all is_fin x"
  shows "preprocess passthrough x 10 = Inr x"
proof -
  from assms have "x \<noteq> []" by auto
  then have "detrend passthrough x = Inr x"
    using assms(2) by (rule detrend_passthrough)
  then show ?thesis
    unfolding preprocess_def using assms(1) by (simp only: and_then_Inr fir_filter_passthrough_10)
qed

lemma example_pass_A:
  "\<not> out_of_range example_OD1 example_OD2" "\<not> flat_line passthrough example_OD1 example_OD2"
  "\<not> out_of_range example_OD1 example_OD1" "\<not> flat_line passthrough example_OD1 example_OD1"
proof -
  have "std_real (map the_fin example_OD1) \<noteq> 0" "std_real (map the_fin example_OD2) \<noteq> 0"
    by (rule std_real_two_values[of 1 _ 2]; simp add: examples)+
  then show "\<not> flat_line passthrough example_OD1 example_OD2" "\<not> flat_line passthrough example_OD1 example_OD1"
    by (simp_all add: flat_line_def np_std_passthrough examples)
  show "\<not> out_of_range example_OD1 example_OD2" "\<not> out_of_range example_OD1 example_OD1"
    by (simp_all add: out_of_range_def examples thrLow_intensity_def thrUp_intensity_def np_gt_def)
qed

lemma example_preprocess:
  "preprocess passthrough example_OD1 10 = Inr example_OD1"
  "preprocess passthrough example_OD2 10 = Inr example_OD2"
  "preprocess passthrough example_oxy 10 = Inr example_oxy"
  "preprocess passthrough example_dxy 10 = Inr example_dxy"
  "preprocess passthrough (replicate 10 (Fin 0)) 10 = Inr (replicate 10 (Fin 0))"
  by (rule preprocess_passthrough_10; simp add: examples list_all_iff)+

lemma example_autocorr_OD1:
  "autocorr passthrough example_OD1 =
     [Fin (2 / 25), Fin (1 / 5), Fin (6 / 25), Fin (2 / 5), Fin (2 / 5),
      Fin (3 / 5), Fin (14 / 25), Fin (4 / 5), Fin (18 / 25), Fin 1,
      Fin (18 / 25), Fin (4 / 5), Fin (14 / 25), Fin (3 / 5), Fin (2 / 5),
      Fin (2 / 5), Fin (6 / 25), Fin (1 / 5), Fin (2 / 25)]"
  by (simp add: autocorr_def correlate_def passthrough_def example_OD1_def upt_19 upt_10 np_sum_def)

lemma example_autocorr_OD2:
  "autocorr passthrough example_OD2 =
     [Fin (1 / 22), Fin (1 / 11), Fin (5 / 22), Fin (4 / 11), Fin (5 / 11),
      Fin (6 / 11), Fin (7 / 11), Fin (8 / 11), Fin (19 / 22), Fin 1,
      Fin (19 / 22), Fin (8 / 11), Fin (7 / 11), Fin (6 / 11), Fin (5 / 11),
      Fin (4 / 11), Fin (5 / 22), Fin (1 / 11), Fin (1 / 22)]"
  by (simp add: autocorr_def correlate_def passthrough_def example_OD2_def upt_19 upt_10 np_sum_def)

lemma example_metric:
  "acorrDiffODs passthrough example_OD1 example_OD2 = Inr (Fin (1 / sqrt (59847 / 10920250)))"
  by (simp add: acorrDiffODs_def np_sub_arrays_def example_autocorr_OD1 example_autocorr_OD2
      np_sub_def np_std_passthrough std_real_def mean_def power2_eq_square)

lemma example_metric_same:
  "acorrDiffODs passthrough example_OD1 example_OD1 = Inr PInf"
  by (simp add: acorrDiffODs_def np_sub_arrays_def example_autocorr_OD1
      np_sub_def np_std_passthrough std_real_def mean_def inf_of_sign_def)

lemma example_metric_below: "\<not> np_gt (Fin (1 / sqrt (59847 / 10920250))) (Fin 40)"
proof -
  have "(1 / 40)\<^sup>2 \<le> (59847 / 10920250 :: real)" by (simp add: power2_eq_square)
  then have "sqrt ((1 / 40)\<^sup>2) \<le> sqrt (59847 / 10920250)"
    by (rule real_sqrt_le_mono)
  then have "1 / 40 \<le> sqrt (59847 / 10920250)" by simp
  then have "1 / sqrt (59847 / 10920250) \<le> 1 / (1 / 40)"
    by (intro divide_left_mono) simp_all
  then show ?thesis by (simp add: np_gt_def)
qed

lemma ln3_bounds: "1 \<le> ln (3::real)" "ln (3::real) \<le> 2"
proof -
  have "exp 1 \<le> (3::real)" by (rule exp_le)
  then show "1 \<le> ln (3::real)" by (simp add: ln_ge_iff)
  show "ln (3::real) \<le> 2" using ln_le_minus_one[of "3::real"] by simp
qed

lemma example_ratio:
  "sumHbratio example_oxy example_dxy = Fin (ln 3)"
  "sumHbratio example_dxy example_dxy = Fin 0"
  by (simp_all add: sumHbratio_def examples np_sum_def)

lemma example_std:
  "np_std passthrough example_oxy = Fin 3" "np_std passthrough example_dxy = Fin 1"
proof -
  have "sqrt 9 = (3::real)" using real_sqrt_abs[of 3] by simp
  then show "np_std passthrough example_oxy = Fin 3" "np_std passthrough example_dxy = Fin 1"
    by (simp_all add: np_std_passthrough std_real_def mean_def examples)
qed



lemma example_not_pass_B: "\<not> np_lt (sumHbratio example_oxy example_dxy) (Fin 0.67)"
  using ln3_bounds(1) by (simp add: example_ratio)

lemma example_raw_in_range:
  "1 \<le> ln 3 * 1.795613343002295 + (0.846108994828045::real)"
  "ln 3 * 1.795613343002295 + (0.846108994828045::real) \<le> 5"
  using ln3_bounds by simp_all

lemma preprocess_padlen_at_10:
  assumes "fir_design (length x) 10 = Inr (numtaps, beta)"
    and "0 \<le> numtaps" and "length x \<le> 3 * nat numtaps"
    and "x \<noteq> []" and "list_all is_fin x"
  shows "preprocess K x 10 = Inl ValueError"
proof -
  define d where "d = map (detrend_values K x) [0..<length x]"
  have d: "detrend K x = Inr d" unfolding d_def using assms(4,5) by (rule detrend_Inr)
  have ld: "length d = length x" by (simp add: d_def)
  define b where "b = map (firwin_taps K (nat numtaps) (0.4, 3) beta 10) [0..<nat numtaps]"
  have w: "firwin K numtaps (0.4, 3) beta 10 = Inr b"
    unfolding b_def using assms(2) by (intro firwin_band_Inr) simp_all
  have "length b = nat numtaps" by (simp add: b_def)
  then have "filtfilt K b d = Inl ValueError"
    using ld assms(3) by (simp add: filtfilt_def Let_def max_def)
  then have "fir_filter K d 10 (0.4, 3) = Inl ValueError"
    using w assms(1) by (simp only: fir_filter_def ld and_then_Inr prod.case)
  then show ?thesis
    by (simp only: preprocess_def d and_then_Inr)
qed

lemma preprocess_below_band:
  assumes "Fs \<le> 6" "Fs \<noteq> 0" "\<bar>Fs\<bar> \<le> 10 ^ 300" "x \<noteq> []" "list_all is_fin x"
  shows "preprocess K x Fs = Inl ValueError"
proof -
  define d where "d = map (detrend_values K x) [0..<length x]"
  have d: "detrend K x = Inr d" unfolding d_def using assms(4,5) by (rule detrend_Inr)
  have "fir_filter K d Fs (0.4, 3) = Inl ValueError"
    by (simp only: fir_filter_def fir_design_eq[OF assms(2,3)] and_then_Inr prod.case
        firwin_band_Inl[OF assms(1)] and_then_Inl)
  then show ?thesis
    by (simp only: preprocess_def d and_then_Inr)
qed

text \<open>The optical density used for windows of other lengths: ones, and a two at the end.\<close>

lemma step_signal_past_A:
  assumes "0 < k"
  shows "\<not> out_of_range (replicate k (Fin 1) @ [Fin 2]) (replicate k (Fin 1) @ [Fin 2])"
    and "\<not> flat_line passthrough (replicate k (Fin 1) @ [Fin 2]) (replicate k (Fin 1) @ [Fin 2])"
proof -
  have "std_real (map the_fin (replicate k (Fin 1) @ [Fin 2])) \<noteq> 0"
    using assms by (intro std_real_two_values[of 1 _ 2]) simp_all
  then show "\<not> flat_line passthrough (replicate k (Fin 1) @ [Fin 2])
      (replicate k (Fin 1) @ [Fin 2])"
    by (simp add: flat_line_def np_std_passthrough list_all_iff)
  show "\<not> out_of_range (replicate k (Fin 1) @ [Fin 2]) (replicate k (Fin 1) @ [Fin 2])"
    by (simp add: out_of_range_def list_ex_iff thrLow_intensity_def thrUp_intensity_def np_gt_def)
qed

lemma SQI_first_channel_raises:
  assumes "\<not> out_of_range OD1 OD2" "\<not> flat_line K OD1 OD2" "preprocess K OD1 Fs = Inl e"
  shows "SQI K OD1 OD2 oxy dxy Fs = Inl e"
  using assms by (simp add: SQI_past_A)

section \<open>The claims\<close>

text \<open>
  Claim C4, as the program has it: whenever \<^verbatim>\<open>fir_filter\<close> gets as far as calling
  \<^verbatim>\<open>firwin\<close>, the tap count it passes is odd and is at most
  \<^verbatim>\<open>int(len(signal) / 3.5) + 1\<close>, hence at most \<^verbatim>\<open>len(signal) / 3.5 + 1\<close>.  The bit is
  set after the cap, so the cap itself can be exceeded by one.
\<close>

theorem tap_count_odd_and_capped:
  assumes "fir_design n Fs = Inr (numtaps, beta)"
  shows "odd numtaps \<and> numtaps \<le> \<lfloor>real n / 3.5\<rfloor> + 1 \<and> real_of_int numtaps \<le> real n / 3.5 + 1"
proof -
  from fir_design_Inr[OF assms]
  obtain c where k: "numtaps = c OR 1" and c: "c \<le> \<lfloor>real n / 3.5\<rfloor>"
    using cap_numtaps_le by blast
  have 1: "odd numtaps" and 2: "numtaps \<le> \<lfloor>real n / 3.5\<rfloor> + 1"
    using or_one_bounds[of c] k c by auto
  have "real_of_int numtaps \<le> real_of_int (\<lfloor>real n / 3.5\<rfloor> + 1)"
    using 2 by (simp only: of_int_le_iff)
  also have "\<dots> \<le> real n / 3.5 + 1"
    using of_int_floor_le[of "real n / 3.5"] by (simp only: of_int_add of_int_1 add_le_cancel_right)
  finally show ?thesis using 1 2 by (simp only: simp_thms)
qed

text \<open>The window of the specification, 20 samples at 10 Hz: five taps.\<close>

theorem tap_count_odd_and_capped_witness:
  "fir_design 20 10 = Inr (5, 0.1102 * 56.3) \<and>
   odd (5::int) \<and> (5::int) \<le> \<lfloor>real 20 / 3.5\<rfloor> + 1 \<and> real_of_int 5 \<le> real 20 / 3.5 + 1"
proof -
  have d: "fir_design 20 10 = Inr (5, 0.1102 * 56.3)" by (rule fir_design_at_10(2))
  from tap_count_odd_and_capped[OF d] d show ?thesis by simp
qed

text \<open>
  Against C4 as stated: for 21 samples at 10 Hz the cap is \<^verbatim>\<open>21 / 3.5 = 6\<close>, and the
  tap count used is 7.
\<close>

theorem tap_count_exceeds_cap:
  "fir_design 21 10 = Inr (7, 0.1102 * 56.3) \<and> real 21 / 3.5 < real_of_int 7"
  by (simp add: fir_design_21_10)




text \<open>
  Claim C6, where the program breaks it.  The flat-line test of line 66 compares
  \<^verbatim>\<open>np.std\<close> with zero.  The standard deviation that float64 arithmetic gives for a
  constant signal need not be zero (for three samples of 0.1 it is \<open>1 / 2 ^ 56\<close>), and then
  the constant signal does not return 1 at line 68: when no sample is out of range and
  neither computed standard deviation is zero, \<^verbatim>\<open>SQI\<close> goes on to detrend and filter the
  four channels and returns what the later stages make of them.
\<close>

theorem constant_signal_passes_flat_line_test:
  assumes "\<not> out_of_range (replicate n (Fin c)) OD2"
    and "np_std K (replicate n (Fin c)) \<noteq> Fin 0" and "np_std K OD2 \<noteq> Fin 0"
  shows "SQI K (replicate n (Fin c)) OD2 oxy dxy Fs =
     and_then (preprocess K (replicate n (Fin c)) Fs) (\<lambda>OD1_filt.
     and_then (preprocess K OD2 Fs) (\<lambda>OD2_filt.
     and_then (preprocess K oxy Fs) (\<lambda>oxy_filt.
     and_then (preprocess K dxy Fs) (\<lambda>dxy_filt.
       rate_filtered K OD1_filt OD2_filt oxy_filt dxy_filt))))"
  using assms by (simp add: SQI_def flat_line_def)

text \<open>
  Three samples of 0.1 in \<^verbatim>\<open>OD1\<close> at 10 Hz: the gate does not fire, one tap is left for the
  filter and \<^verbatim>\<open>filtfilt\<close> raises.
\<close>

theorem constant_signal_passes_flat_line_test_witness:
  "SQI rounded_std (replicate 3 (Fin 0.1)) [Fin 1, Fin 2, Fin 1] [Fin 1, Fin 2, Fin 3]
     [Fin 2, Fin 1, Fin 2] 10 = Inl ValueError"
proof -
  have r: "\<not> out_of_range (replicate 3 (Fin 0.1)) [Fin 1, Fin 2, Fin 1]"
    by (simp add: out_of_range_def thrLow_intensity_def thrUp_intensity_def np_gt_def
        numeral_3_eq_3)
  have s1: "np_std rounded_std (replicate 3 (Fin 0.1)) \<noteq> Fin 0"
    by (simp add: np_std_def rounded_std_def numeral_3_eq_3)
  have "std_real [1, 2, 1] \<noteq> 0"
    by (rule std_real_two_values[of 1 _ 2]) simp_all
  then have s2: "np_std rounded_std [Fin 1, Fin 2, Fin 1] \<noteq> Fin 0"
    by (simp add: np_std_def rounded_std_def passthrough_def)
  have "detrend rounded_std (replicate 3 (Fin 0.1)) = Inr (replicate 3 (Fin 0.1))"
    by (simp add: detrend_def rounded_std_def passthrough_def numeral_3_eq_3 upt_rec)
  moreover have "fir_filter rounded_std (replicate 3 (Fin 0.1)) 10 (0.4, 3) = Inl ValueError"
    by (simp add: fir_filter_def fir_design_at_10(4) firwin_def filtfilt_def)
  ultimately have "preprocess rounded_std (replicate 3 (Fin 0.1)) 10 = Inl ValueError"
    by (simp only: preprocess_def and_then_Inr)
  with constant_signal_passes_flat_line_test[OF r s1 s2] show ?thesis by simp
qed

text \<open>
  What does hold of the first gate: when some sample of \<^verbatim>\<open>OD1\<close> or \<^verbatim>\<open>OD2\<close> is below 0.04
  or above 2.5, or \<^verbatim>\<open>np.std\<close> of \<^verbatim>\<open>OD1\<close> or of \<^verbatim>\<open>OD2\<close> is exactly zero, \<^verbatim>\<open>SQI\<close> returns
  exactly 1, whatever the library would compute and whether or not detrending or filtering
  would raise; in particular when \<^verbatim>\<open>OD1\<close> holds the sample 0.03.
\<close>

theorem stage_one_pass_A:
  "((\<exists>x\<in>set OD1 \<union> set OD2. np_lt x (Fin 0.04) \<or> np_gt x (Fin 2.5)) \<or>
      np_std K OD1 = Fin 0 \<or> np_std K OD2 = Fin 0
      \<longrightarrow> SQI K OD1 OD2 oxy dxy Fs = Inr (Fin 1)) \<and>
   (Fin 0.03 \<in> set OD1 \<longrightarrow> SQI K OD1 OD2 oxy dxy Fs = Inr (Fin 1))"
proof (intro conjI impI)
  assume "(\<exists>x\<in>set OD1 \<union> set OD2. np_lt x (Fin 0.04) \<or> np_gt x (Fin 2.5)) \<or>
      np_std K OD1 = Fin 0 \<or> np_std K OD2 = Fin 0"
  then have "out_of_range OD1 OD2 \<or> flat_line K OD1 OD2"
    by (auto simp: out_of_range_def flat_line_def list_ex_iff thrLow_intensity_def
        thrUp_intensity_def)
  then show "SQI K OD1 OD2 oxy dxy Fs = Inr (Fin 1)" by (rule SQI_pass_A)
next
  assume "Fin 0.03 \<in> set OD1"
  moreover have "np_lt (Fin 0.03) (Fin thrLow_intensity)" by (simp add: thrLow_intensity_def)
  ultimately have "out_of_range OD1 OD2"
    unfolding out_of_range_def list_ex_iff by blast
  then show "SQI K OD1 OD2 oxy dxy Fs = Inr (Fin 1)" by (simp add: SQI_pass_A)
qed

text \<open>
  A sample above the range with a sampling rate of zero (filtering would raise), and a
  single sample at 0.03.
\<close>

theorem stage_one_pass_A_witness:
  "SQI passthrough [Fin 1, Fin 2.6] [Fin 1, Fin 2] [] [] 0 = Inr (Fin 1) \<and>
   SQI passthrough [Fin 1, Fin 0.03, Fin 2] [Fin 1, Fin 2, Fin 1] [Fin 1, Fin 2, Fin 3]
     [Fin 2, Fin 1, Fin 2] 10 = Inr (Fin 1)"
  using stage_one_pass_A[of "[Fin 1, Fin 2.6]" "[Fin 1, Fin 2]" passthrough "[]" "[]" 0]
    stage_one_pass_A[of "[Fin 1, Fin 0.03, Fin 2]" "[Fin 1, Fin 2, Fin 1]" passthrough
      "[Fin 1, Fin 2, Fin 3]" "[Fin 2, Fin 1, Fin 2]" 10]
  by (simp add: np_gt_def)

text \<open>
  Claim C10: when \<^verbatim>\<open>OD1\<close> or \<^verbatim>\<open>OD2\<close> trips the first gate, the result is 1 and does not
  depend on \<^verbatim>\<open>oxy\<close>, \<^verbatim>\<open>dxy\<close> or \<^verbatim>\<open>Fs\<close>, nor on anything that \<^verbatim>\<open>detrend\<close>, \<^verbatim>\<open>firwin\<close>,
  \<^verbatim>\<open>filtfilt\<close> or \<^verbatim>\<open>correlate\<close> would compute: a second call with the same \<^verbatim>\<open>OD1\<close> and
  \<^verbatim>\<open>OD2\<close> (and the same \<^verbatim>\<open>np.std\<close>, which the gate itself evaluates) returns the same.
\<close>

theorem pass_A_ignores_hb_and_rate:
  assumes "out_of_range OD1 OD2 \<or> flat_line K OD1 OD2"
  shows "SQI K OD1 OD2 oxy dxy Fs = Inr (Fin 1) \<and>
         SQI K OD1 OD2 oxy dxy Fs =
         SQI (K'\<lparr>std_value := std_value K\<rparr>) OD1 OD2 oxy' dxy' Fs'"
proof -
  have "flat_line (K'\<lparr>std_value := std_value K\<rparr>) OD1 OD2 = flat_line K OD1 OD2"
    by (simp add: flat_line_def np_std_same_std_value)
  with assms have "out_of_range OD1 OD2 \<or> flat_line (K'\<lparr>std_value := std_value K\<rparr>) OD1 OD2"
    by simp
  then have "SQI (K'\<lparr>std_value := std_value K\<rparr>) OD1 OD2 oxy' dxy' Fs' = Inr (Fin 1)"
    by (rule SQI_pass_A)
  with assms show ?thesis by (simp add: SQI_pass_A)
qed

theorem pass_A_ignores_hb_and_rate_witness:
  "SQI passthrough [Fin 0.03, Fin 1] [Fin 1, Fin 2] [Fin 7] [] 0 = Inr (Fin 1) \<and>
   SQI passthrough [Fin 0.03, Fin 1] [Fin 1, Fin 2] [Fin 7] [] 0 =
   SQI (rounded_std\<lparr>std_value := std_value passthrough\<rparr>) [Fin 0.03, Fin 1] [Fin 1, Fin 2]
     [Fin 1, Fin 2] [Fin 3, Fin 1] 10"
proof -
  have "out_of_range [Fin 0.03, Fin 1] [Fin 1, Fin 2]"
    by (simp add: out_of_range_def thrLow_intensity_def)
  then have "out_of_range [Fin 0.03, Fin 1] [Fin 1, Fin 2] \<or>
      flat_line passthrough [Fin 0.03, Fin 1] [Fin 1, Fin 2]"
    by (rule disjI1)
  then show ?thesis by (rule pass_A_ignores_hb_and_rate)
qed

text \<open>
  Claim C1, where the program breaks it.  When the two filtered haemoglobin signals are
  all zero (what an all-zero \<^verbatim>\<open>oxy\<close> and \<^verbatim>\<open>dxy\<close> give) and stage two does not fire,
  both logarithms are taken of \<^verbatim>\<open>0/0\<close>; NaN is neither below 1 nor above 5, so lines 106
  to 109 leave it alone and \<^verbatim>\<open>SQI\<close> returns NaN, which is not a score between 1 and 5.
\<close>

theorem nan_score_for_zero_hemoglobin:
  assumes "\<not> out_of_range OD1 OD2" and "\<not> flat_line K OD1 OD2"
    and "preprocess K OD1 Fs = Inr OD1_filt" and "preprocess K OD2 Fs = Inr OD2_filt"
    and "preprocess K oxy Fs = Inr oxy_filt" and "preprocess K dxy Fs = Inr dxy_filt"
    and "set oxy_filt \<subseteq> {Fin 0}" and "set dxy_filt \<subseteq> {Fin 0}"
    and "acorrDiffODs K OD1_filt OD2_filt = Inr metric"
    and "\<not> np_gt metric (Fin 40)"
  shows "SQI K OD1 OD2 oxy dxy Fs = Inr NaN"
proof -
  have "sumHbratio oxy_filt dxy_filt = NaN"
    using assms(7,8) by (simp add: sumHbratio_def np_sum_zeros inf_of_sign_def)
  then have b: "\<not> np_lt (sumHbratio oxy_filt dxy_filt) (Fin 0.67)" by simp
  have "np_div (np_std K oxy_filt) (np_std K dxy_filt) = NaN"
    using np_std_zeros[OF assms(7), where K = K] np_std_zeros[OF assms(8), where K = K]
    by (auto simp: inf_of_sign_def)
  then have "stage_three K oxy_filt dxy_filt = NaN"
    by (simp add: stage_three_def logStdHb_def force_range_def np_gt_def)
  moreover have "SQI K OD1 OD2 oxy dxy Fs = rate_filtered K OD1_filt OD2_filt oxy_filt dxy_filt"
    using assms(1-6) by (rule SQI_filtered)
  ultimately show ?thesis
    using b assms(9,10) by (simp add: rate_filtered_def stage_two_def thr_sumHbratio_def thr_acorrDiffODs_def)
qed

theorem nan_score_for_zero_hemoglobin_witness:
  "SQI passthrough example_OD1 example_OD2 (replicate 10 (Fin 0)) (replicate 10 (Fin 0)) 10
     = Inr NaN"
  by (rule nan_score_for_zero_hemoglobin[OF example_pass_A(1,2) example_preprocess(1)
        example_preprocess(2) example_preprocess(5) example_preprocess(5) _ _ example_metric
        example_metric_below]) simp_all

text \<open>
  Claim C2, as the program has it.  Nothing is checked before computing.  An input that
  trips the first gate returns 1 whatever else is wrong with it.  Past that gate, a
  sampling rate that is not positive, an infinite or NaN sample in any channel, or a
  channel of fewer than ten samples ends in an exception raised inside the pipeline,
  by whichever call fails first; for an infinite or NaN sample in \<^verbatim>\<open>OD1\<close> that is the
  \<^verbatim>\<open>ValueError\<close> of the first \<^verbatim>\<open>detrend\<close>.  Haemoglobin channels of other lengths than
  the optical densities are not noticed: finite channels of at least 22 samples each,
  \<^verbatim>\<open>OD1\<close> as long as \<^verbatim>\<open>OD2\<close>, and a sampling rate above 6 and at most \<open>10 ^ 300\<close> give a
  score.
\<close>

theorem no_input_validation:
  "(out_of_range OD1 OD2 \<or> flat_line K OD1 OD2 \<longrightarrow> SQI K OD1 OD2 oxy dxy Fs = Inr (Fin 1)) \<and>
   (\<not> out_of_range OD1 OD2 \<and> \<not> flat_line K OD1 OD2 \<and>
      (Fs \<le> 0 \<or> \<not> list_all is_fin (OD1 @ OD2 @ oxy @ dxy) \<or>
       length OD1 \<le> 9 \<or> length OD2 \<le> 9 \<or> length oxy \<le> 9 \<or> length dxy \<le> 9)
    \<longrightarrow> (\<exists>e. SQI K OD1 OD2 oxy dxy Fs = Inl e)) \<and>
   (\<not> out_of_range OD1 OD2 \<and> \<not> flat_line K OD1 OD2 \<and> \<not> list_all is_fin OD1
    \<longrightarrow> SQI K OD1 OD2 oxy dxy Fs = Inl ValueError) \<and>
   (list_all is_fin (OD1 @ OD2 @ oxy @ dxy) \<and> length OD1 = length OD2 \<and>
      22 \<le> length OD1 \<and> 22 \<le> length oxy \<and> 22 \<le> length dxy \<and> 6 < Fs \<and> Fs \<le> 10 ^ 300
    \<longrightarrow> (\<exists>score. SQI K OD1 OD2 oxy dxy Fs = Inr score))"
proof (intro conjI impI)
  assume "out_of_range OD1 OD2 \<or> flat_line K OD1 OD2"
  then show "SQI K OD1 OD2 oxy dxy Fs = Inr (Fin 1)" by (rule SQI_pass_A)
next
  assume a: "\<not> out_of_range OD1 OD2 \<and> \<not> flat_line K OD1 OD2 \<and>
      (Fs \<le> 0 \<or> \<not> list_all is_fin (OD1 @ OD2 @ oxy @ dxy) \<or>
       length OD1 \<le> 9 \<or> length OD2 \<le> 9 \<or> length oxy \<le> 9 \<or> length dxy \<le> 9)"
  have "Fs \<le> 0 \<Longrightarrow> \<exists>e. preprocess K OD1 Fs = Inl e"
    by (rule preprocess_low_rate) simp
  with a have "(\<exists>e. preprocess K OD1 Fs = Inl e) \<or> (\<exists>e. preprocess K OD2 Fs = Inl e) \<or>
      (\<exists>e. preprocess K oxy Fs = Inl e) \<or> (\<exists>e. preprocess K dxy Fs = Inl e)"
    using preprocess_not_finite[of _ K Fs] preprocess_short_window[of _ K Fs]
    by (elim conjE disjE) auto
  then show "\<exists>e. SQI K OD1 OD2 oxy dxy Fs = Inl e"
    using a
    by (cases "preprocess K OD1 Fs"; cases "preprocess K OD2 Fs"; cases "preprocess K oxy Fs";
        cases "preprocess K dxy Fs") (auto simp: SQI_past_A)
next
  assume "\<not> out_of_range OD1 OD2 \<and> \<not> flat_line K OD1 OD2 \<and> \<not> list_all is_fin OD1"
  then show "SQI K OD1 OD2 oxy dxy Fs = Inl ValueError"
    by (simp add: SQI_past_A preprocess_not_finite)
next
  assume "list_all is_fin (OD1 @ OD2 @ oxy @ dxy) \<and> length OD1 = length OD2 \<and>
      22 \<le> length OD1 \<and> 22 \<le> length oxy \<and> 22 \<le> length dxy \<and> 6 < Fs \<and> Fs \<le> 10 ^ 300"
  then show "\<exists>score. SQI K OD1 OD2 oxy dxy Fs = Inr score"
    by (intro SQI_returns) simp_all
qed

text \<open>
  An input that trips the first gate; a NaN in \<^verbatim>\<open>oxy\<close> with a negative sampling rate; a NaN
  in \<^verbatim>\<open>OD1\<close>; and channels of 22, 22, 23 and 30 samples at 10 Hz.
\<close>

theorem no_input_validation_witness:
  "SQI passthrough [Fin 0.03, Fin 1] [Fin 1, Fin 2, Fin 1] [NaN] [] (- 1) = Inr (Fin 1) \<and>
   (\<exists>e. SQI passthrough example_OD1 example_OD2 [NaN] [] (- 1) = Inl e) \<and>
   SQI passthrough [NaN, Fin 1] [Fin 1, Fin 2] example_oxy example_dxy 0 = Inl ValueError \<and>
   (\<exists>score. SQI passthrough (replicate 21 (Fin 1) @ [Fin 2]) (replicate 21 (Fin 1) @ [Fin 2])
      (replicate 23 (Fin 0)) (replicate 30 (Fin 0)) 10 = Inr score)"
proof -
  have "out_of_range [Fin 0.03, Fin 1] [Fin 1, Fin 2, Fin 1]"
    by (simp add: out_of_range_def thrLow_intensity_def)
  then have 1: "SQI passthrough [Fin 0.03, Fin 1] [Fin 1, Fin 2, Fin 1] [NaN] [] (- 1) = Inr (Fin 1)"
    using no_input_validation[of "[Fin 0.03, Fin 1]" "[Fin 1, Fin 2, Fin 1]" passthrough "[NaN]" "[]" "- 1"]
    by blast
  have 2: "\<exists>e. SQI passthrough example_OD1 example_OD2 [NaN] [] (- 1) = Inl e"
    using no_input_validation[of example_OD1 example_OD2 passthrough "[NaN]" "[]" "- 1"]
      example_pass_A(1,2) by simp
  have "\<not> out_of_range [NaN, Fin 1] [Fin 1, Fin 2]"
    by (simp add: out_of_range_def thrLow_intensity_def thrUp_intensity_def np_gt_def)
  moreover have "std_real [1, 2] \<noteq> 0"
    by (rule std_real_two_values[of 1 _ 2]) simp_all
  then have "\<not> flat_line passthrough [NaN, Fin 1] [Fin 1, Fin 2]"
    by (simp add: flat_line_def np_std_passthrough)
  ultimately have 3: "SQI passthrough [NaN, Fin 1] [Fin 1, Fin 2] example_oxy example_dxy 0 =
      Inl ValueError"
    using no_input_validation[of "[NaN, Fin 1]" "[Fin 1, Fin 2]" passthrough example_oxy
        example_dxy 0]
    by simp
  have 4: "\<exists>score. SQI passthrough (replicate 21 (Fin 1) @ [Fin 2])
      (replicate 21 (Fin 1) @ [Fin 2]) (replicate 23 (Fin 0)) (replicate 30 (Fin 0)) 10 =
      Inr score"
    using no_input_validation[of "replicate 21 (Fin 1) @ [Fin 2]" "replicate 21 (Fin 1) @ [Fin 2]"
        passthrough "replicate 23 (Fin 0)" "replicate 30 (Fin 0)" 10]
    by (simp add: list_all_iff)
  from 1 2 3 4 show ?thesis by (intro conjI)
qed

text \<open>
  Against C2 as stated: four channels of four different lengths, a NaN sample and a
  negative sampling rate, and the program returns the score 1.
\<close>

theorem invalid_input_gets_a_score:
  "SQI passthrough [Fin 0.03, Fin 1] [Fin 1, Fin 2, Fin 1] [NaN] [] (- 1) = Inr (Fin 1)"
  by (rule SQI_pass_A) (simp add: out_of_range_def thrLow_intensity_def)

text \<open>
  Claim C3, as the program has it: when the four channels hold finite samples and have
  the same length \<open>N\<close>, which is at least 10 and none of 14, 15 and 21, and the sampling rate
  is above 6 Hz (so that the upper band edge of 3 Hz is below the Nyquist frequency) and
  at most \<open>10 ^ 300\<close> (so that the order estimate is a float64), \<^verbatim>\<open>SQI\<close> runs to completion
  and returns a value; the tap count is then at least 3 and three times it is less than
  \<open>N\<close>, which is what \<^verbatim>\<open>filtfilt\<close> asks for.  This covers 20 samples at 10 Hz.
\<close>

theorem windows_run_to_completion:
  assumes "list_all is_fin OD1" "list_all is_fin OD2" "list_all is_fin oxy" "list_all is_fin dxy"
    and "length OD1 = N" "length OD2 = N" "length oxy = N" "length dxy = N"
    and "10 \<le> N" "N \<noteq> 14" "N \<noteq> 15" "N \<noteq> 21"
    and "6 < Fs" "Fs \<le> 10 ^ 300"
  shows "(\<exists>score. SQI K OD1 OD2 oxy dxy Fs = Inr score) \<and>
         (\<exists>numtaps beta. fir_design N Fs = Inr (numtaps, beta) \<and> 3 \<le> numtaps \<and>
            3 * numtaps < int N)"
proof
  show "\<exists>score. SQI K OD1 OD2 oxy dxy Fs = Inr score"
    using assms by (intro SQI_returns) simp_all
  show "\<exists>numtaps beta. fir_design N Fs = Inr (numtaps, beta) \<and> 3 \<le> numtaps \<and>
      3 * numtaps < int N"
    using assms(13,14,9-12) by (rule fir_design_window)
qed

text \<open>Twenty samples at 10 Hz: five taps, and a value is returned.\<close>

theorem windows_run_to_completion_witness:
  "(\<exists>score. SQI passthrough (replicate 19 (Fin 1) @ [Fin 2]) (replicate 19 (Fin 1) @ [Fin 2])
      (replicate 20 (Fin 0)) (replicate 20 (Fin 0)) 10 = Inr score) \<and>
   (\<exists>numtaps beta. fir_design 20 10 = Inr (numtaps, beta) \<and> 3 \<le> numtaps \<and>
      3 * numtaps < int 20)"
  by (rule windows_run_to_completion[where N = 20]) (simp_all add: list_all_iff)

text \<open>
  Against C3 as stated, finite in-range samples throughout.  With 21 samples at 10 Hz the
  cap gives 6 taps, the lowest bit makes it 7, the padding of \<^verbatim>\<open>filtfilt\<close> is 21 and the
  signal is not longer than that.  With 14 and with 15 samples the cap gives 4 taps, the
  lowest bit makes it 5 and the padding is 15.  With 22 samples at 5 Hz the band edge of
  3 Hz is above the Nyquist frequency and \<^verbatim>\<open>firwin\<close> raises.
\<close>

theorem valid_windows_raise:
  "SQI passthrough (replicate 20 (Fin 1) @ [Fin 2]) (replicate 20 (Fin 1) @ [Fin 2])
     (replicate 21 (Fin 0)) (replicate 21 (Fin 0)) 10 = Inl ValueError \<and>
   SQI passthrough (replicate 13 (Fin 1) @ [Fin 2]) (replicate 13 (Fin 1) @ [Fin 2])
     (replicate 14 (Fin 0)) (replicate 14 (Fin 0)) 10 = Inl ValueError \<and>
   SQI passthrough (replicate 14 (Fin 1) @ [Fin 2]) (replicate 14 (Fin 1) @ [Fin 2])
     (replicate 15 (Fin 0)) (replicate 15 (Fin 0)) 10 = Inl ValueError \<and>
   SQI passthrough (replicate 21 (Fin 1) @ [Fin 2]) (replicate 21 (Fin 1) @ [Fin 2])
     (replicate 22 (Fin 0)) (replicate 22 (Fin 0)) 5 = Inl ValueError"
proof (intro conjI)
  have "preprocess passthrough (replicate 20 (Fin 1) @ [Fin 2]) 10 = Inl ValueError"
    by (rule preprocess_padlen_at_10[where numtaps = 7 and beta = "0.1102 * 56.3"])
      (simp_all add: fir_design_at_10 list_all_iff)
  then show "SQI passthrough (replicate 20 (Fin 1) @ [Fin 2]) (replicate 20 (Fin 1) @ [Fin 2])
     (replicate 21 (Fin 0)) (replicate 21 (Fin 0)) 10 = Inl ValueError"
    by (intro SQI_first_channel_raises step_signal_past_A) simp_all
  have "preprocess passthrough (replicate 13 (Fin 1) @ [Fin 2]) 10 = Inl ValueError"
    by (rule preprocess_padlen_at_10[where numtaps = 5 and beta = "0.1102 * 56.3"])
      (simp_all add: fir_design_at_10 list_all_iff)
  then show "SQI passthrough (replicate 13 (Fin 1) @ [Fin 2]) (replicate 13 (Fin 1) @ [Fin 2])
     (replicate 14 (Fin 0)) (replicate 14 (Fin 0)) 10 = Inl ValueError"
    by (intro SQI_first_channel_raises step_signal_past_A) simp_all
  have "preprocess passthrough (replicate 14 (Fin 1) @ [Fin 2]) 10 = Inl ValueError"
    by (rule preprocess_padlen_at_10[where numtaps = 5 and beta = "0.1102 * 56.3"])
      (simp_all add: fir_design_at_10 list_all_iff)
  then show "SQI passthrough (replicate 14 (Fin 1) @ [Fin 2]) (replicate 14 (Fin 1) @ [Fin 2])
     (replicate 15 (Fin 0)) (replicate 15 (Fin 0)) 10 = Inl ValueError"
    by (intro SQI_first_channel_raises step_signal_past_A) simp_all
  have "preprocess passthrough (replicate 21 (Fin 1) @ [Fin 2]) 5 = Inl ValueError"
    by (rule preprocess_below_band) (simp_all add: list_all_iff)
  then show "SQI passthrough (replicate 21 (Fin 1) @ [Fin 2]) (replicate 21 (Fin 1) @ [Fin 2])
     (replicate 22 (Fin 0)) (replicate 22 (Fin 0)) 5 = Inl ValueError"
    by (intro SQI_first_channel_raises step_signal_past_A) simp_all
qed



text \<open>
  Claim C8: past stage one, for optical densities of the same length, the autocorrelation
  of each filtered optical density is the full correlation of the signal with itself
  (\<^verbatim>\<open>2 N - 1\<close> entries) divided by its sum of squares; \<^verbatim>\<open>SQI\<close> returns exactly 5 when
  \<^verbatim>\<open>1 / std\<close> of the difference of the two is above 40, and the result of stage three
  otherwise.
\<close>

theorem stage_two_gate:
  assumes "\<not> out_of_range OD1 OD2" and "\<not> flat_line K OD1 OD2"
    and "preprocess K OD1 Fs = Inr OD1_filt" and "preprocess K OD2 Fs = Inr OD2_filt"
    and "preprocess K oxy Fs = Inr oxy_filt" and "preprocess K dxy Fs = Inr dxy_filt"
    and "\<not> np_lt (sumHbratio oxy_filt dxy_filt) (Fin 0.67)"
    and "length OD1 = length OD2"
  shows "SQI K OD1 OD2 oxy dxy Fs =
     (if np_gt (np_div (Fin 1)
                 (np_std K (map2 np_sub (autocorr K OD1_filt) (autocorr K OD2_filt)))) (Fin 40)
      then Inr (Fin 5)
      else Inr (stage_three K oxy_filt dxy_filt)) \<and>
    autocorr K OD1_filt =
      map (\<lambda>c. np_div c (np_sum (map (\<lambda>x. np_mul x x) OD1_filt)))
        (correlate K OD1_filt OD1_filt) \<and>
    autocorr K OD2_filt =
      map (\<lambda>c. np_div c (np_sum (map (\<lambda>x. np_mul x x) OD2_filt)))
        (correlate K OD2_filt OD2_filt) \<and>
    length (correlate K OD1_filt OD1_filt) = 2 * length OD1 - 1 \<and>
    length (correlate K OD2_filt OD2_filt) = 2 * length OD2 - 1"
proof -
  have len: "length OD1_filt = length OD1" "length OD2_filt = length OD2"
    using assms(3,4) by (simp_all add: preprocess_length)
  with assms(8) have "length OD1_filt = length OD2_filt" by simp
  then have m: "acorrDiffODs K OD1_filt OD2_filt =
    Inr (np_div (Fin 1) (np_std K (map2 np_sub (autocorr K OD1_filt) (autocorr K OD2_filt))))"
    by (rule acorrDiffODs_same_length)
  have "SQI K OD1 OD2 oxy dxy Fs = rate_filtered K OD1_filt OD2_filt oxy_filt dxy_filt"
    using assms(1-6) by (rule SQI_filtered)
  also have "\<dots> = stage_two K OD1_filt OD2_filt oxy_filt dxy_filt"
    using assms(7) by (simp add: rate_filtered_def thr_sumHbratio_def)
  finally have "SQI K OD1 OD2 oxy dxy Fs =
     (if np_gt (np_div (Fin 1)
                 (np_std K (map2 np_sub (autocorr K OD1_filt) (autocorr K OD2_filt)))) (Fin 40)
      then Inr (Fin 5)
      else Inr (stage_three K oxy_filt dxy_filt))"
    by (simp add: stage_two_def m thr_acorrDiffODs_def)
  moreover have "length (correlate K OD1_filt OD1_filt) = 2 * length OD1 - 1"
    and "length (correlate K OD2_filt OD2_filt) = 2 * length OD2 - 1"
    using len by (simp_all add: correlate_def mult_2)
  ultimately show ?thesis
    by (simp only: autocorr_def simp_thms)
qed

theorem stage_two_gate_witness:
  "SQI passthrough example_OD1 example_OD1 example_oxy example_dxy 10 = Inr (Fin 5) \<and>
   SQI passthrough example_OD1 example_OD2 example_oxy example_dxy 10 =
     Inr (stage_three passthrough example_oxy example_dxy)"
proof -
  have same: "np_div (Fin 1) (np_std passthrough (map2 np_sub (autocorr passthrough example_OD1)
      (autocorr passthrough example_OD1))) = PInf"
    using example_metric_same by (simp add: acorrDiffODs_same_length)
  have diff: "np_div (Fin 1) (np_std passthrough (map2 np_sub (autocorr passthrough example_OD1)
      (autocorr passthrough example_OD2))) = Fin (1 / sqrt (59847 / 10920250))"
    using example_metric by (simp add: acorrDiffODs_same_length examples)
  have l: "length example_OD1 = length example_OD2" by (simp add: examples)
  from stage_two_gate[OF example_pass_A(3,4) example_preprocess(1) example_preprocess(1)
      example_preprocess(3) example_preprocess(4) example_not_pass_B refl]
  have 1: "SQI passthrough example_OD1 example_OD1 example_oxy example_dxy 10 = Inr (Fin 5)"
    by (simp only: same) (simp add: np_gt_def)
  from stage_two_gate[OF example_pass_A(1,2) example_preprocess(1) example_preprocess(2)
      example_preprocess(3) example_preprocess(4) example_not_pass_B l]
  have 2: "SQI passthrough example_OD1 example_OD2 example_oxy example_dxy 10 =
     Inr (stage_three passthrough example_oxy example_dxy)"
    using example_metric_below by (simp only: diff if_False)
  from 1 2 show ?thesis ..
qed

text \<open>
  Claim C9: when neither gate fires, the score is
  \<^verbatim>\<open>ln(std(oxy_filt) / std(dxy_filt)) * 1.795613343002295 + 0.846108994828045\<close> clamped
  to the interval from 1 to 5: a finite value \<open>raw\<close> gives \<open>max 1 (min 5 raw)\<close>, plus
  infinity gives 5 and minus infinity gives 1.  (A NaN is returned as it is.)
\<close>

theorem stage_three_score:
  assumes "\<not> out_of_range OD1 OD2" and "\<not> flat_line K OD1 OD2"
    and "preprocess K OD1 Fs = Inr OD1_filt" and "preprocess K OD2 Fs = Inr OD2_filt"
    and "preprocess K oxy Fs = Inr oxy_filt" and "preprocess K dxy Fs = Inr dxy_filt"
    and "\<not> np_lt (sumHbratio oxy_filt dxy_filt) (Fin 0.67)"
    and "acorrDiffODs K OD1_filt OD2_filt = Inr metric"
    and "\<not> np_gt metric (Fin 40)"
  shows "SQI K OD1 OD2 oxy dxy Fs =
     Inr (case np_add (np_mul (np_log (np_div (np_std K oxy_filt) (np_std K dxy_filt)))
                        (Fin 1.795613343002295)) (Fin 0.846108994828045) of
            Fin raw \<Rightarrow> Fin (max 1 (min 5 raw))
          | PInf \<Rightarrow> Fin 5
          | NInf \<Rightarrow> Fin 1
          | NaN \<Rightarrow> NaN)"
proof -
  have "SQI K OD1 OD2 oxy dxy Fs = rate_filtered K OD1_filt OD2_filt oxy_filt dxy_filt"
    using assms(1-6) by (rule SQI_filtered)
  also have "\<dots> = stage_two K OD1_filt OD2_filt oxy_filt dxy_filt"
    using assms(7) by (simp add: rate_filtered_def thr_sumHbratio_def)
  also have "\<dots> = Inr (stage_three K oxy_filt dxy_filt)"
    using assms(8,9) by (simp add: stage_two_def thr_acorrDiffODs_def)
  finally show ?thesis
    by (simp only: stage_three_def force_range_cases logStdHb_def slope_def intercept_def)
qed

theorem stage_three_score_witness:
  "SQI passthrough example_OD1 example_OD2 example_oxy example_dxy 10 =
     Inr (Fin (ln 3 * 1.795613343002295 + 0.846108994828045))"
proof -
  have "np_add (np_mul (np_log (np_div (np_std passthrough example_oxy) (np_std passthrough example_dxy)))
                        (Fin 1.795613343002295)) (Fin 0.846108994828045)
      = Fin (ln 3 * 1.795613343002295 + 0.846108994828045)"
    by (simp add: example_std)
  with stage_three_score[OF example_pass_A(1,2) example_preprocess(1) example_preprocess(2)
      example_preprocess(3) example_preprocess(4) example_not_pass_B example_metric
      example_metric_below]
  show ?thesis
    using example_raw_in_range by (simp only: npfloat.case max_def min_def if_True if_False split: if_splits) auto
qed

text \<open>
  The range of the score: whatever \<^verbatim>\<open>SQI\<close> returns is a number between 1 and 5, or NaN.
\<close>

theorem score_in_range_or_nan:
  assumes "SQI K OD1 OD2 oxy dxy Fs = Inr score"
  shows "score = NaN \<or> (\<exists>r. score = Fin r \<and> 1 \<le> r \<and> r \<le> 5)"
proof -
  have "score = Fin 1 \<or> score = Fin 5 \<or> (\<exists>a b. score = stage_three K a b)"
    using assms
    by (auto simp: SQI_def rate_filtered_def stage_two_def and_then_eq_Inr_iff split: if_splits)
  then show ?thesis using stage_three_range by auto
qed

theorem score_in_range_or_nan_witness:
  "Fin 1 = NaN \<or> (\<exists>r. Fin 1 = Fin r \<and> (1::real) \<le> r \<and> r \<le> 5)"
proof -
  have "out_of_range [Fin 0.03, Fin 1] [Fin 1, Fin 2]"
    by (simp add: out_of_range_def thrLow_intensity_def)
  then have "SQI passthrough [Fin 0.03, Fin 1] [Fin 1, Fin 2] [] [] 0 = Inr (Fin 1)"
    by (simp add: SQI_pass_A)
  then show ?thesis by (rule score_in_range_or_nan)
qed

end
